theory Spec2Isabelle
  imports Complex_Main "HOL-Library.AList"
begin

section \<open>Python values\<close>

text \<open>
  The recorder stores dynamically typed Python values. A \<open>string\<close> stands for a Python
  \<open>str\<close> whose code points are below 256 (one \<open>char\<close> per code point). A dictionary is
  an association list in insertion order with string keys; \<open>AList.update\<close> is the
  assignment \<open>d[k] = v\<close> (an existing key keeps its place, a new key goes last). A
  finite float is a rational number. A \<open>datetime\<close> carries the ISO text of its naive
  part and, when it is aware, the text of its UTC offset. Any other object carries the
  text that \<open>str()\<close> gives for it.
\<close>

record datetime =
  dt_iso :: string
  dt_tzinfo :: "string option"

datatype pyval =
    PNone
  | PBool bool
  | PInt int
  | PFloat rat
  | PStr string
  | PList "pyval list"
  | PDict "(string \<times> pyval) list"
  | PDatetime datetime
  | PObj string

type_synonym pydict = "(string \<times> pyval) list"

text \<open>Truth value of a Python value, as \<open>not\<close>, \<open>or\<close> and \<open>if\<close> take it.\<close>

fun truthy :: "pyval \<Rightarrow> bool" where
  "truthy PNone = False"
| "truthy (PBool b) = b"
| "truthy (PInt i) = (i \<noteq> 0)"
| "truthy (PFloat q) = (q \<noteq> 0)"
| "truthy (PStr s) = (s \<noteq> [])"
| "truthy (PList xs) = (xs \<noteq> [])"
| "truthy (PDict kvs) = (kvs \<noteq> [])"
| "truthy (PDatetime d) = True"
| "truthy (PObj s) = True"

text \<open>\<open>a or b\<close>: the first operand when it is truthy, the second otherwise.\<close>

definition py_or :: "pyval \<Rightarrow> pyval \<Rightarrow> pyval" where
  "py_or a b = (if truthy a then a else b)"

text \<open>\<open>d.get(k)\<close>: the value stored under the key, \<open>None\<close> when the key is absent.\<close>

definition dict_get :: "pydict \<Rightarrow> string \<Rightarrow> pyval" where
  "dict_get d k = (case map_of d k of None \<Rightarrow> PNone | Some v \<Rightarrow> v)"

text \<open>\<open>d.setdefault(k, v)\<close>: stores \<open>v\<close> only when the key is absent.\<close>

definition dict_setdefault :: "pydict \<Rightarrow> string \<Rightarrow> pyval \<Rightarrow> pydict" where
  "dict_setdefault d k v = (case map_of d k of None \<Rightarrow> AList.update k v d | Some _ \<Rightarrow> d)"

subsection \<open>Strings\<close>

text \<open>
  \<open>str.isspace\<close> on the code points below 256: tab to carriage return, the four
  separators 28 to 31, space, next line (133) and no-break space (160).
\<close>

definition isspace :: "char \<Rightarrow> bool" where
  "isspace c = (let n = (of_char c :: nat) in
     (9 \<le> n \<and> n \<le> 13) \<or> (28 \<le> n \<and> n \<le> 32) \<or> n = 133 \<or> n = 160)"

text \<open>\<open>s.strip()\<close>: leading and trailing whitespace removed.\<close>

definition strip :: "string \<Rightarrow> string" where
  "strip s = rev (dropWhile isspace (rev (dropWhile isspace s)))"

text \<open>
  \<open>s.lower()\<close> on the code points below 256: the letters A to Z and the accented
  capitals 192 to 222 (the multiplication sign 215 apart) move up by 32.
\<close>

definition lower_char :: "char \<Rightarrow> char" where
  "lower_char c = (let n = (of_char c :: nat) in
     if (65 \<le> n \<and> n \<le> 90) \<or> (192 \<le> n \<and> n \<le> 222 \<and> n \<noteq> 215)
     then char_of (n + 32) else c)"

definition lower :: "string \<Rightarrow> string" where
  "lower s = map lower_char s"

section \<open>Value normalizer (_json.py)\<close>

text \<open>
  \<open>jsonable\<close>: \<open>None\<close> and every \<open>str\<close>, \<open>int\<close>, \<open>float\<close>, \<open>bool\<close>, \<open>list\<close> and
  \<open>dict\<close> are returned as they are (a container is not traversed); a \<open>datetime\<close>
  without \<open>tzinfo\<close> is taken as UTC and formatted by \<open>isoformat()\<close>; anything else
  becomes its \<open>str()\<close> text.
\<close>

definition isoformat :: "datetime \<Rightarrow> string" where
  "isoformat d = dt_iso d @ (case dt_tzinfo d of None \<Rightarrow> [] | Some off \<Rightarrow> off)"

definition utc_offset :: string where
  "utc_offset = ''+00:00''"

fun jsonable :: "pyval \<Rightarrow> pyval" where
  "jsonable PNone = PNone"
| "jsonable (PDatetime d) =
     PStr (isoformat (if dt_tzinfo d = None then d\<lparr>dt_tzinfo := Some utc_offset\<rparr> else d))"
| "jsonable (PObj s) = PStr s"
| "jsonable v = v"

text \<open>
  A primitive (null, boolean, integer, float, string), or a list or mapping made
  entirely of such values, at any depth.
\<close>

fun plain :: "pyval \<Rightarrow> bool" where
  "plain PNone = True"
| "plain (PBool b) = True"
| "plain (PInt i) = True"
| "plain (PFloat q) = True"
| "plain (PStr s) = True"
| "plain (PList xs) = list_all plain xs"
| "plain (PDict kvs) = list_all (\<lambda>kv. plain (snd kv)) kvs"
| "plain (PDatetime d) = False"
| "plain (PObj s) = False"

section \<open>Exceptions\<close>

text \<open>
  A raised exception: the name of its class, the text \<open>str()\<close> gives for it, and
  whether the class derives from \<open>Exception\<close> (\<open>KeyboardInterrupt\<close>, \<open>SystemExit\<close>
  and \<open>GeneratorExit\<close> derive from \<open>BaseException\<close> only, and \<open>except Exception\<close>
  does not catch them).
\<close>

datatype exn = Exn (exn_type: string) (exn_str: string) (exn_is_Exception: bool)

definition ValueError :: "string \<Rightarrow> exn" where
  "ValueError msg = Exn ''ValueError'' msg True"

definition AttributeError :: "string \<Rightarrow> exn" where
  "AttributeError msg = Exn ''AttributeError'' msg True"

definition NameError :: "string \<Rightarrow> exn" where
  "NameError msg = Exn ''NameError'' msg True"

definition TypeError :: "string \<Rightarrow> exn" where
  "TypeError msg = Exn ''TypeError'' msg True"

section \<open>Run recorder (logger.py): state and accumulation\<close>

text \<open>
  The dataclass \<open>AutomationRunLogger\<close>. The identity fields hold whatever value the
  builder resolved (a config value is not type-checked), so they are Python values.
  \<open>run_output\<close> and \<open>run_context\<close> are the fields \<open>output\<close> and \<open>context\<close>;
  \<open>t0\<close>, \<open>success\<close> and \<open>run_time\<close> are \<open>_t0\<close>, \<open>_success\<close> and \<open>_run_time\<close>.
\<close>

record recorder =
  automation_id :: pyval
  schema_name :: pyval
  table_name :: pyval
  script_path :: "string option"
  run_output :: pydict
  run_context :: pydict
  flags :: pydict
  t0 :: rat
  success :: bool
  run_time :: "datetime option"

text \<open>
  \<open>set_output\<close> builds a new dictionary \<open>{k: jsonable(v) for k, v in payload.items()}\<close>;
  \<open>add_output\<close> assigns one key.
\<close>

definition set_output :: "recorder \<Rightarrow> pydict \<Rightarrow> recorder" where
  "set_output r payload =
     r\<lparr>run_output := foldl (\<lambda>d (k, v). AList.update k (jsonable v) d) [] payload\<rparr>"

definition add_output :: "recorder \<Rightarrow> string \<Rightarrow> pyval \<Rightarrow> recorder" where
  "add_output r key v = r\<lparr>run_output := AList.update key (jsonable v) (run_output r)\<rparr>"

definition mark_failure :: "recorder \<Rightarrow> recorder" where
  "mark_failure r = r\<lparr>success := False\<rparr>"

text \<open>
  \<open>add_flag(self, name, **meta)\<close>. The name is any Python value; \<open>meta\<close> is the
  dictionary of the keyword arguments. Binding the call comes first: a keyword named
  \<open>self\<close> or \<open>name\<close> collides with a positional parameter and Python raises
  \<open>TypeError\<close> before the body runs. In the body the two checks raise \<open>ValueError\<close>;
  without metadata \<open>setdefault\<close> stores the sentinel \<open>True\<close> only when the name has
  no entry; with metadata the existing entry (\<open>True\<close>, \<open>None\<close> or absent: an empty
  dictionary; a dictionary: itself; anything else: wrapped under \<open>value\<close>) receives
  every keyword in turn and is stored back.
\<close>

definition flag_name_error :: exn where
  "flag_name_error = ValueError ''flag name must be a non-empty string''"

definition keyword_clash :: "pydict \<Rightarrow> bool" where
  "keyword_clash meta = (''self'' \<in> set (map fst meta) \<or> ''name'' \<in> set (map fst meta))"

definition keyword_error :: exn where
  "keyword_error = TypeError ''add_flag() got multiple values for argument''"

definition merge_meta :: "pydict \<Rightarrow> pydict \<Rightarrow> pydict" where
  "merge_meta existing meta = foldl (\<lambda>d (k, v). AList.update k (jsonable v) d) existing meta"

definition flag_base :: "pyval \<Rightarrow> pydict" where
  "flag_base existing =
     (if existing = PBool True \<or> existing = PNone then []
      else (case existing of
              PDict d \<Rightarrow> d
            | _ \<Rightarrow> [(''value'', jsonable existing)]))"

definition add_flag :: "recorder \<Rightarrow> pyval \<Rightarrow> pydict \<Rightarrow> exn + recorder" where
  "add_flag r name meta =
     (if keyword_clash meta then Inl keyword_error
      else if \<not> truthy name then Inl flag_name_error
      else (case name of
        PStr s \<Rightarrow>
          (let nm = strip s in
           if nm = [] then Inl flag_name_error
           else if meta = [] then
             Inr (r\<lparr>flags := dict_setdefault (flags r) nm (PBool True)\<rparr>)
           else
             (let existing = flag_base (dict_get (flags r) nm);
                  merged = merge_meta existing meta
              in Inr (r\<lparr>flags := AList.update nm (PDict merged) (flags r)\<rparr>)))
      | _ \<Rightarrow> Inl flag_name_error))"

section \<open>The process environment\<close>

text \<open>
  What the builder reads from the operating system and the interpreter, as one record:
  the file system (\<open>os.path\<close>, the parsed content of a JSON file or the exception
  that opening or parsing it raises), the environment variables, the \<open>__file__\<close> of
  the main module (absent also when the lookup fails), \<open>sys.argv\<close>, the host lookups
  of \<open>_host.py\<close>, and the clock reading \<open>time.time()\<close> at construction.
\<close>

record os_env =
  env_abspath :: "string \<Rightarrow> string"
  env_isfile :: "string \<Rightarrow> bool"
  env_dirname :: "string \<Rightarrow> string"
  env_getcwd :: string
  env_exists :: "string \<Rightarrow> bool"
  env_json_load :: "string \<Rightarrow> exn + pyval"
  env_getenv :: "string \<Rightarrow> string option"
  env_main_file :: "string option"
  env_argv :: "string list"
  env_gethostname :: string
  env_getfqdn :: string
  env_gethostbyname :: "string \<Rightarrow> exn + string"
  env_platform :: string
  env_python :: string
  env_time :: rat

text \<open>An optional string as a Python value, and its truth value.\<close>

definition opt_str :: "string option \<Rightarrow> pyval" where
  "opt_str x = (case x of None \<Rightarrow> PNone | Some s \<Rightarrow> PStr s)"

section \<open>Entry-point and path resolvers (_paths.py)\<close>

text \<open>
  The three fallback signals of \<open>resolve_entry_script_path\<close>. The module never
  imports \<open>inspect\<close>, so evaluating \<open>inspect.stack()\<close> raises \<open>NameError\<close>, which the
  surrounding \<open>except Exception\<close> swallows; \<open>stack_scan\<close> is the loop it would run
  over the file names of the frames.
\<close>

definition main_signal :: "os_env \<Rightarrow> string option" where
  "main_signal env =
     (case env_main_file env of
        None \<Rightarrow> None
      | Some main_file \<Rightarrow>
          if main_file \<noteq> [] then
            (let p = env_abspath env main_file in if env_isfile env p then Some p else None)
          else None)"

definition argv_signal :: "os_env \<Rightarrow> string option" where
  "argv_signal env =
     (case env_argv env of
        [] \<Rightarrow> None
      | a # _ \<Rightarrow>
          if a \<noteq> [] then
            (let p = env_abspath env a in if env_isfile env p then Some p else None)
          else None)"

fun contains :: "string \<Rightarrow> string \<Rightarrow> bool" where
  "contains sub [] = (sub = [])"
| "contains sub (c # cs) = (take (length sub) (c # cs) = sub \<or> contains sub cs)"

definition replace_backslash :: "string \<Rightarrow> string" where
  "replace_backslash s = map (\<lambda>c. if c = CHR 0x5C then CHR ''/'' else c) s"

fun stack_scan :: "os_env \<Rightarrow> string list \<Rightarrow> string option" where
  "stack_scan env [] = None"
| "stack_scan env (filename # frames) =
     (if filename = [] then stack_scan env frames
      else if contains ''automation_logger'' (replace_backslash filename)
        then stack_scan env frames
      else (let p = env_abspath env filename in
            if env_isfile env p then Some p else stack_scan env frames))"

definition inspect_stack :: "os_env \<Rightarrow> exn + string list" where
  "inspect_stack env = Inl (NameError ''inspect'')"

definition stack_signal :: "os_env \<Rightarrow> string option" where
  "stack_signal env =
     (case inspect_stack env of
        Inl e \<Rightarrow> None
      | Inr frames \<Rightarrow> stack_scan env frames)"

definition resolve_entry_script_path :: "os_env \<Rightarrow> string option \<Rightarrow> string option" where
  "resolve_entry_script_path env explicit =
     (if truthy (opt_str explicit) then
        (case explicit of
           Some e \<Rightarrow> (let p = env_abspath env e in if env_isfile env p then Some p else None)
         | None \<Rightarrow> None)
      else
        (case main_signal env of
           Some p \<Rightarrow> Some p
         | None \<Rightarrow>
             (case argv_signal env of
                Some p \<Rightarrow> Some p
              | None \<Rightarrow>
                  (case stack_signal env of
                     Some p \<Rightarrow> Some p
                   | None \<Rightarrow> None))))"

definition resolve_path :: "os_env \<Rightarrow> string \<Rightarrow> string option \<Rightarrow> string" where
  "resolve_path env path_mode script =
     (let pm = lower (strip (if path_mode \<noteq> [] then path_mode else ''cwd'')) in
      case script of
        Some sp \<Rightarrow>
          if pm = ''script'' \<and> sp \<noteq> [] then env_dirname env (env_abspath env sp)
          else env_getcwd env
      | None \<Rightarrow> env_getcwd env)"

section \<open>Host context and config source (_host.py, _config.py)\<close>

text \<open>
  \<open>get_host_context\<close>: a failed address lookup gives \<open>None\<close> for \<open>host_ip\<close> when
  \<open>except Exception\<close> catches it, and propagates otherwise.
\<close>

definition get_host_context :: "os_env \<Rightarrow> exn + pydict" where
  "get_host_context env =
     (let host_name = env_gethostname env;
          fqdn = env_getfqdn env;
          looked_up =
            (case env_gethostbyname env host_name of
               Inr ip \<Rightarrow> Inr (PStr ip)
             | Inl e \<Rightarrow> if exn_is_Exception e then Inr PNone else Inl e)
      in case looked_up of
           Inl e \<Rightarrow> Inl e
         | Inr host_ip \<Rightarrow>
             Inr [(''host_name'', PStr host_name),
                  (''computername'', opt_str (env_getenv env ''COMPUTERNAME'')),
                  (''fqdn'', PStr fqdn),
                  (''host_ip'', host_ip),
                  (''platform'', PStr (env_platform env)),
                  (''python'', PStr (env_python env))])"

definition load_automation_config :: "os_env \<Rightarrow> string \<Rightarrow> exn + pyval" where
  "load_automation_config env config_path =
     (if \<not> env_exists env config_path then Inr (PDict [])
      else env_json_load env config_path)"

section \<open>Run record builder (logger.py, from_config)\<close>

text \<open>
  \<open>str.isdigit\<close> on the code points below 256 accepts the decimal digits and the
  superscripts one, two and three (185, 178, 179); \<open>int()\<close> accepts the decimal digits
  only and raises \<open>ValueError\<close> on a superscript. \<open>int_of_digits\<close> is \<open>int()\<close> on a
  string that passed \<open>isdigit\<close>, shorter than the interpreter's limit on the length of
  a decimal literal.
\<close>

definition isdigit_char :: "char \<Rightarrow> bool" where
  "isdigit_char c = (let n = (of_char c :: nat) in
     (48 \<le> n \<and> n \<le> 57) \<or> n = 178 \<or> n = 179 \<or> n = 185)"

definition isdigit :: "string \<Rightarrow> bool" where
  "isdigit s = (s \<noteq> [] \<and> list_all isdigit_char s)"

definition decimal_char :: "char \<Rightarrow> bool" where
  "decimal_char c = (let n = (of_char c :: nat) in 48 \<le> n \<and> n \<le> 57)"

definition int_of_digits :: "string \<Rightarrow> exn + int" where
  "int_of_digits s =
     (if list_all decimal_char s
      then Inr (foldl (\<lambda>n c. 10 * n + (of_char c - 48)) 0 s)
      else Inl (ValueError ''invalid literal for int() with base 10''))"

text \<open>
  \<open>env_id = int(env_id) if env_id and env_id.isdigit() else None\<close>, read from the
  variable \<open>AUTOMATION_ID\<close>.
\<close>

definition read_env_id :: "os_env \<Rightarrow> exn + pyval" where
  "read_env_id env =
     (case env_getenv env ''AUTOMATION_ID'' of
        None \<Rightarrow> Inr PNone
      | Some s \<Rightarrow>
          if s \<noteq> [] \<and> isdigit s then
            (case int_of_digits s of Inl e \<Rightarrow> Inl e | Inr i \<Rightarrow> Inr (PInt i))
          else Inr PNone)"

text \<open>The chain \<open>automation_id if ... is not None else cfg_id if ... is not None else env_id\<close>.\<close>

definition resolve_id :: "int option \<Rightarrow> pyval \<Rightarrow> pyval \<Rightarrow> pyval" where
  "resolve_id arg_id cfg_id env_id =
     (case arg_id of
        Some i \<Rightarrow> PInt i
      | None \<Rightarrow> if cfg_id \<noteq> PNone then cfg_id else env_id)"

text \<open>\<open>dict.update\<close>: every item of the second dictionary is assigned in turn.\<close>

definition dict_update :: "pydict \<Rightarrow> pydict \<Rightarrow> pydict" where
  "dict_update d other = foldl (\<lambda>acc (k, v). AList.update k v acc) d other"

text \<open>The context payload of \<open>from_config\<close>, before the host context is merged in.\<close>

definition build_context ::
  "os_env \<Rightarrow> string \<Rightarrow> string \<Rightarrow> string \<Rightarrow> string option \<Rightarrow> pydict" where
  "build_context env config_path final_path_mode resolved_path entry_script_path =
     (let c1 = AList.update ''config_path'' (PStr config_path) [];
          c2 = AList.update ''path_mode'' (PStr final_path_mode) c1;
          c3 = AList.update ''cwd'' (PStr (env_getcwd env)) c2;
          c4 = AList.update ''resolved_path'' (PStr resolved_path) c3
      in case entry_script_path of
           Some p \<Rightarrow>
             if p \<noteq> [] then
               AList.update ''entry_script_dir'' (PStr (env_dirname env p))
                 (AList.update ''entry_script_path'' (PStr p) c4)
             else c4
         | None \<Rightarrow> c4)"

definition missing_id_error :: exn where
  "missing_id_error =
     ValueError ''automation_id is required (arg, config, or AUTOMATION_ID env var).''"

text \<open>
  \<open>from_config\<close>, statement by statement. A config that is not a dictionary has no
  \<open>get\<close>, and a path mode that is not a string has no \<open>strip\<close>: both raise
  \<open>AttributeError\<close>. The arguments are typed as the signature annotates them.
\<close>

definition from_config ::
  "os_env \<Rightarrow> string \<Rightarrow> int option \<Rightarrow> string option \<Rightarrow> string option \<Rightarrow>
   string option \<Rightarrow> string option \<Rightarrow> exn + recorder" where
  "from_config env config_path arg_id arg_schema arg_table arg_script arg_path_mode =
     (case load_automation_config env config_path of
        Inl e \<Rightarrow> Inl e
      | Inr (PDict cfg) \<Rightarrow>
          (let cfg_id = dict_get cfg ''automation_id'' in
           case read_env_id env of
             Inl e \<Rightarrow> Inl e
           | Inr env_id \<Rightarrow>
               (let final_id = resolve_id arg_id cfg_id env_id in
                if final_id = PNone then Inl missing_id_error
                else
                  (let final_schema =
                         py_or (py_or (opt_str arg_schema) (dict_get cfg ''schema_name''))
                           (PStr ''automations'');
                       final_table =
                         py_or (py_or (opt_str arg_table) (dict_get cfg ''table_name''))
                           (PStr ''run_log'');
                       entry_script_path = resolve_entry_script_path env arg_script
                   in case py_or (py_or (opt_str arg_path_mode) (dict_get cfg ''path_mode''))
                             (PStr ''script'') of
                        PStr pm \<Rightarrow>
                          (let requested = lower (strip pm);
                               final_path_mode =
                                 (if requested = ''script'' \<and> \<not> truthy (opt_str entry_script_path)
                                  then ''cwd'' else requested);
                               resolved_path = resolve_path env final_path_mode entry_script_path;
                               logger = \<lparr>automation_id = final_id,
                                         schema_name = final_schema,
                                         table_name = final_table,
                                         script_path = entry_script_path,
                                         run_output = [],
                                         run_context = [],
                                         flags = [],
                                         t0 = env_time env,
                                         success = True,
                                         run_time = None\<rparr>;
                               ctx = build_context env config_path final_path_mode
                                       resolved_path entry_script_path
                           in case get_host_context env of
                                Inl e \<Rightarrow> Inl e
                              | Inr host \<Rightarrow> Inr (logger\<lparr>run_context := dict_update ctx host\<rparr>))
                      | _ \<Rightarrow> Inl (AttributeError ''strip''))))
      | Inr _ \<Rightarrow> Inl (AttributeError ''get''))"

section \<open>Run recorder (logger.py): scope entry, persistence, finalization\<close>

text \<open>
  The persistence side: \<open>json.dumps\<close> (which raises on a value it cannot serialize)
  and the warehouse client, which receives the statement's target and parameters and
  either returns or raises; and \<open>traceback.format_exception\<close> for a raised exception.
\<close>

record db_row =
  row_schema :: pyval
  row_table :: pyval
  row_automation_id :: pyval
  row_run_time :: datetime
  row_context :: string
  row_output :: string
  row_flags :: string
  row_success :: bool
  row_duration_ms :: int

record run_env =
  json_dumps :: "pyval \<Rightarrow> exn + string"
  warehouse_execute :: "db_row \<Rightarrow> exn option"
  format_exception :: "exn \<Rightarrow> string list"

text \<open>
  \<open>_insert_row\<close>: the three payloads are serialized in the order output, context,
  flags (\<open>d or {}\<close> is an empty dictionary when \<open>d\<close> is one, and \<open>d\<close> otherwise),
  then the row goes to the warehouse. The result is the exception raised, if
  any, and the row handed to the warehouse, if it got that far.
\<close>

definition insert_row ::
  "run_env \<Rightarrow> recorder \<Rightarrow> bool \<Rightarrow> datetime \<Rightarrow> int \<Rightarrow> exn option \<times> db_row option" where
  "insert_row env r succ rt duration_ms =
     (case json_dumps env (PDict (run_output r)) of
        Inl e \<Rightarrow> (Some e, None)
      | Inr output_json_str \<Rightarrow>
          (case json_dumps env (PDict (run_context r)) of
             Inl e \<Rightarrow> (Some e, None)
           | Inr context_json_str \<Rightarrow>
               (case json_dumps env (PDict (flags r)) of
                  Inl e \<Rightarrow> (Some e, None)
                | Inr flags_json_str \<Rightarrow>
                    (let row = \<lparr>row_schema = schema_name r,
                                 row_table = table_name r,
                                 row_automation_id = automation_id r,
                                 row_run_time = rt,
                                 row_context = context_json_str,
                                 row_output = output_json_str,
                                 row_flags = flags_json_str,
                                 row_success = succ,
                                 row_duration_ms = duration_ms\<rparr>
                     in (warehouse_execute env row, Some row)))))"

text \<open>\<open>__enter__\<close>: the clock reading and the UTC timestamp at scope entry.\<close>

definition enter :: "recorder \<Rightarrow> rat \<Rightarrow> datetime \<Rightarrow> recorder" where
  "enter r now utcnow = r\<lparr>t0 := now, run_time := Some utcnow\<rparr>"

text \<open>
  Double arithmetic. A finite double is a rational \<open>m * 2 ^ e\<close> with \<open>\<bar>m\<bar> < 2 ^ 53\<close>
  and \<open>e \<ge> -1074\<close>. \<open>binade x\<close> is the exponent \<open>k\<close> with
  \<open>2 ^ k \<le> \<bar>x\<bar> < 2 ^ (k + 1)\<close>, \<open>ulp x\<close> the spacing of the doubles there (the
  spacing of the subnormals below \<open>2 ^ -1022\<close>), and \<open>round_double\<close> the IEEE 754
  rounding of an exact result to the nearest double, ties to the even significand.
  Results beyond the largest double, which Python gives as infinity, are outside the
  model: the operands are clock readings, seconds since the epoch.
\<close>

function bitlen :: "int \<Rightarrow> int" where
  "bitlen n = (if n \<le> 0 then 0 else 1 + bitlen (n div 2))"
  by pat_completeness auto
termination
  by (relation "measure nat") auto

declare bitlen.simps [simp del]

definition binade :: "rat \<Rightarrow> int" where
  "binade x = (let a = \<bar>x\<bar> in
     if 1 \<le> a then bitlen \<lfloor>a\<rfloor> - 1
     else - bitlen (\<lceil>1 / a\<rceil> - 1))"

definition pow2 :: "int \<Rightarrow> rat" where
  "pow2 e = (if 0 \<le> e then 2 ^ nat e else 1 / 2 ^ nat (- e))"

definition ulp :: "rat \<Rightarrow> rat" where
  "ulp x = pow2 (max (binade x) (- 1022) - 52)"

definition round_half_even :: "rat \<Rightarrow> int" where
  "round_half_even x = (let f = \<lfloor>x\<rfloor>; d = x - of_int f in
     if d < 1 / 2 then f
     else if 1 / 2 < d then f + 1
     else if even f then f else f + 1)"

definition round_double :: "rat \<Rightarrow> rat" where
  "round_double x = (if x = 0 then 0 else of_int (round_half_even (x / ulp x)) * ulp x)"

text \<open>\<open>int(x)\<close> on a float: truncation towards zero.\<close>

definition py_int :: "rat \<Rightarrow> int" where
  "py_int x = (if 0 \<le> x then \<lfloor>x\<rfloor> else \<lceil>x\<rceil>)"

text \<open>
  \<open>int((time.time() - self._t0) * 1000)\<close>: the difference of the two readings and its
  product with 1000 are each rounded to a double.
\<close>

definition duration_ms_of :: "rat \<Rightarrow> rat \<Rightarrow> int" where
  "duration_ms_of now start = py_int (round_double (round_double (now - start) * 1000))"

text \<open>
  What \<open>__exit__\<close> leaves behind: what it returns or raises, the recorder, the row
  handed to the warehouse (if any) and the lines it printed.
\<close>

record exit_result =
  exit_outcome :: "exn + bool"
  exit_recorder :: recorder
  exit_row :: "db_row option"
  exit_printed :: "string list"

text \<open>
  \<open>__exit__(exc_type, exc, tb)\<close>, with the clock reading and the UTC time at the call.
  \<open>exc\<close> is the exception leaving the scope, if any; \<open>exc_type\<close> is its class, whose
  \<open>__name__\<close> is \<open>exn_type\<close>. A failure of \<open>_insert_row\<close> that \<open>except Exception\<close>
  catches is printed; any other propagates out of \<open>__exit__\<close>. Otherwise \<open>__exit__\<close>
  returns \<open>False\<close>.
\<close>

definition record_error :: "run_env \<Rightarrow> recorder \<Rightarrow> exn \<Rightarrow> recorder" where
  "record_error env r exc =
     (let r1 = r\<lparr>success := False\<rparr>;
          r2 = r1\<lparr>run_output := dict_setdefault (run_output r1) ''error'' (PDict [])\<rparr>
      in r2\<lparr>run_output :=
              AList.update ''error''
                (PDict [(''type'', PStr (exn_type exc)),
                        (''message'', PStr (exn_str exc)),
                        (''traceback'', PStr (concat (format_exception env exc)))])
                (run_output r2)\<rparr>)"

definition exit :: "run_env \<Rightarrow> recorder \<Rightarrow> rat \<Rightarrow> datetime \<Rightarrow> exn option \<Rightarrow> exit_result" where
  "exit env r now utcnow exc =
     (let duration_ms = duration_ms_of now (t0 r);
          rt = (case run_time r of Some t \<Rightarrow> t | None \<Rightarrow> utcnow);
          r' = (case exc of None \<Rightarrow> r | Some e \<Rightarrow> record_error env r e)
      in case insert_row env r' (success r') rt duration_ms of
           (None, row) \<Rightarrow>
             \<lparr>exit_outcome = Inr False, exit_recorder = r', exit_row = row, exit_printed = []\<rparr>
         | (Some log_exc, row) \<Rightarrow>
             if exn_is_Exception log_exc then
               \<lparr>exit_outcome = Inr False, exit_recorder = r', exit_row = row,
                exit_printed = [''[AutomationRunLogger] Failed to log run: '' @ exn_str log_exc]\<rparr>
             else
               \<lparr>exit_outcome = Inl log_exc, exit_recorder = r', exit_row = row,
                exit_printed = []\<rparr>)"

text \<open>
  The \<open>with\<close> statement around the monitored work. The work receives the entered
  recorder, may change it, and returns or raises. Python then calls \<open>__exit__\<close>: an
  exception raised by \<open>__exit__\<close> replaces the one in flight; otherwise the exception
  of the work is re-raised unless \<open>__exit__\<close> returned a true value.
\<close>

datatype outcome = Returned | Raised exn

record scope_result =
  scope_outcome :: outcome
  scope_recorder :: recorder
  scope_row :: "db_row option"
  scope_printed :: "string list"

definition run_scope ::
  "run_env \<Rightarrow> recorder \<Rightarrow> rat \<Rightarrow> datetime \<Rightarrow> (recorder \<Rightarrow> exn option \<times> recorder) \<Rightarrow>
   rat \<Rightarrow> datetime \<Rightarrow> scope_result" where
  "run_scope env r t_in utc_in work t_out utc_out =
     (let (raised, r1) = work (enter r t_in utc_in);
          res = exit env r1 t_out utc_out raised
      in \<lparr>scope_outcome =
            (case exit_outcome res of
               Inl e \<Rightarrow> Raised e
             | Inr suppress \<Rightarrow>
                 (case raised of
                    None \<Rightarrow> Returned
                  | Some e \<Rightarrow> if suppress then Returned else Raised e)),
          scope_recorder = exit_recorder res,
          scope_row = exit_row res,
          scope_printed = exit_printed res\<rparr>)"

section \<open>Flag keys\<close>

text \<open>
  A flag key as the recorder keeps it: a non-empty string that neither starts nor ends
  with whitespace; and the recorder whose flag keys are all of that form.
\<close>

definition trimmed :: "string \<Rightarrow> bool" where
  "trimmed k = (k \<noteq> [] \<and> \<not> isspace (hd k) \<and> \<not> isspace (last k))"

definition flag_keys_trimmed :: "recorder \<Rightarrow> bool" where
  "flag_keys_trimmed r = list_all (\<lambda>kv. trimmed (fst kv)) (flags r)"

section \<open>Concrete instances\<close>

text \<open>A recorder as the dataclass constructs it, for job 7, with nothing accumulated.\<close>

definition example_recorder :: recorder where
  "example_recorder =
     \<lparr>automation_id = PInt 7, schema_name = PStr ''automations'', table_name = PStr ''run_log'',
      script_path = None, run_output = [], run_context = [], flags = [],
      t0 = 0, success = True, run_time = None\<rparr>"

text \<open>
  A host: the job lives in \<open>/srv/job\<close>, started as \<open>main.py\<close>; its config file names
  job 12 and the schema \<open>ops\<close>; the environment variable names job 42.
\<close>

definition example_os_env :: os_env where
  "example_os_env =
     \<lparr>env_abspath = (\<lambda>p. if p \<noteq> [] \<and> hd p = CHR ''/'' then p else ''/srv/job/'' @ p),
      env_isfile = (\<lambda>p. p = ''/srv/job/main.py''),
      env_dirname = (\<lambda>p. rev (tl (dropWhile (\<lambda>c. c \<noteq> CHR ''/'') (rev p)))),
      env_getcwd = ''/srv/job'',
      env_exists = (\<lambda>p. p = ''automation.config''),
      env_json_load =
        (\<lambda>p. Inr (PDict [(''automation_id'', PInt 12), (''schema_name'', PStr ''ops'')])),
      env_getenv = (\<lambda>v. if v = ''AUTOMATION_ID'' then Some ''42'' else None),
      env_main_file = Some ''/srv/job/main.py'',
      env_argv = [''main.py''],
      env_gethostname = ''worker1'',
      env_getfqdn = ''worker1.example.org'',
      env_gethostbyname = (\<lambda>h. Inr ''10.0.0.5''),
      env_platform = ''Linux'',
      env_python = ''3.11'',
      env_time = 100\<rparr>"

text \<open>
  A persistence side that accepts every row, one whose warehouse is unreachable, and
  one where the write is interrupted from the keyboard.
\<close>

definition example_run_env :: run_env where
  "example_run_env =
     \<lparr>json_dumps =
        (\<lambda>v. if plain v then Inr ''{...}''
             else Inl (Exn ''TypeError'' ''Object is not JSON serializable'' True)),
      warehouse_execute = (\<lambda>row. None),
      format_exception = (\<lambda>e. [''Traceback (most recent call last): '', exn_type e])\<rparr>"

definition unreachable_run_env :: run_env where
  "unreachable_run_env =
     example_run_env\<lparr>warehouse_execute :=
       (\<lambda>row. Some (Exn ''ConnectionError'' ''warehouse unreachable'' True))\<rparr>"

definition interrupted_run_env :: run_env where
  "interrupted_run_env =
     example_run_env\<lparr>warehouse_execute :=
       (\<lambda>row. Some (Exn ''KeyboardInterrupt'' [] False))\<rparr>"

definition example_time :: datetime where
  "example_time = \<lparr>dt_iso = ''2024-05-01T12:00:00'', dt_tzinfo = Some ''+00:00''\<rparr>"

text \<open>Monitored work that records a count and returns, and work that then fails.\<close>

definition example_work :: "recorder \<Rightarrow> exn option \<times> recorder" where
  "example_work r = (None, add_output r ''rows'' (PInt 3))"

definition failing_work :: "recorder \<Rightarrow> exn option \<times> recorder" where
  "failing_work r = (Some (ValueError ''bad input''), add_output r ''rows'' (PInt 3))"

section \<open>Facts about strings and dictionaries\<close>

lemma dropWhile_rev_dropWhile:
  "dropWhile P (rev (dropWhile Q (rev (dropWhile P s)))) = rev (dropWhile Q (rev (dropWhile P s)))"
proof (cases "dropWhile Q (rev (dropWhile P s))")
  case Nil then show ?thesis by (simp only: rev.simps dropWhile.simps)
next
  case (Cons a as)
  have "dropWhile P s \<noteq> []"
  proof
    assume "dropWhile P s = []"
    then have "dropWhile Q (rev (dropWhile P s)) = []" by (simp only: rev.simps dropWhile.simps)
    with Cons show False by simp
  qed
  then have h: "\<not> P (hd (dropWhile P s))" by (simp add: hd_dropWhile)
  have ys: "rev (dropWhile P s) = takeWhile Q (rev (dropWhile P s)) @ (a # as)"
    using Cons takeWhile_dropWhile_id[of Q "rev (dropWhile P s)"] by simp
  then have "dropWhile P s = rev (a # as) @ rev (takeWhile Q (rev (dropWhile P s)))"
    by (metis rev_append rev_rev_ident)
  then have "hd (dropWhile P s) = hd (rev (a # as))" by (metis Nil_is_rev_conv hd_append2 list.distinct(1))
  with h have "\<not> P (hd (rev (a # as)))" by simp
  then have "dropWhile P (rev (a # as)) = rev (a # as)"
    by (metis dropWhile_eq_self_iff)
  then show ?thesis by (simp only: Cons)
qed

lemma strip_idem: "strip (strip s) = strip s"
  unfolding strip_def by (simp add: dropWhile_rev_dropWhile dropWhile_idem)

lemma strip_hd: "strip s \<noteq> [] \<Longrightarrow> \<not> isspace (hd (strip s))"
  by (metis dropWhile_eq_self_iff dropWhile_rev_dropWhile strip_def)

lemma strip_last: "strip s \<noteq> [] \<Longrightarrow> \<not> isspace (last (strip s))"
  unfolding strip_def by (simp add: last_rev hd_dropWhile)

lemma dropWhile_all_append: "\<forall>c\<in>set ws. P c \<Longrightarrow> dropWhile P (ws @ s) = dropWhile P s"
  by (induction ws) auto

lemma dropWhile_all: "\<forall>c\<in>set ws. P c \<Longrightarrow> dropWhile P ws = []"
  by simp

lemma strip_padded:
  assumes "\<forall>c\<in>set ws1. isspace c" "\<forall>c\<in>set ws2. isspace c"
  shows "strip (ws1 @ s @ ws2) = strip s"
proof -
  have a: "dropWhile isspace (ws1 @ s @ ws2) = dropWhile isspace (s @ ws2)"
    using assms(1) by (rule dropWhile_all_append)
  show ?thesis
  proof (cases "\<forall>c\<in>set s. isspace c")
    case True
    then have "\<forall>c\<in>set (s @ ws2). isspace c" using assms(2) by auto
    then have "dropWhile isspace (s @ ws2) = []" by (rule dropWhile_all)
    moreover have "dropWhile isspace s = []" using True by (rule dropWhile_all)
    ultimately show ?thesis by (simp only: strip_def a)
  next
    case False
    then obtain c where "c \<in> set s" "\<not> isspace c" by blast
    then have "dropWhile isspace (s @ ws2) = dropWhile isspace s @ ws2"
      by (rule dropWhile_append1)
    then have "rev (dropWhile isspace (s @ ws2)) = rev ws2 @ rev (dropWhile isspace s)" by simp
    moreover have "\<forall>c\<in>set (rev ws2). isspace c" using assms(2) by simp
    ultimately have "dropWhile isspace (rev (dropWhile isspace (s @ ws2))) = dropWhile isspace (rev (dropWhile isspace s))"
      by (simp add: dropWhile_all_append)
    then show ?thesis by (simp add: strip_def a)
  qed
qed

lemma update_fresh: "k \<notin> fst ` set al \<Longrightarrow> AList.update k v al = al @ [(k, v)]"
  by (induction al) auto

lemma map_of_fresh: "map_of al k = None \<Longrightarrow> AList.update k v al = al @ [(k, v)]"
  by (rule update_fresh) (simp add: map_of_eq_None_iff)

lemma jsonable_plain: "plain v \<Longrightarrow> jsonable v = v"
  by (cases v) simp_all

lemma foldl_update_plain:
  assumes "distinct (map fst acc @ map fst payload)"
    and "list_all (\<lambda>kv. plain (snd kv)) payload"
  shows "foldl (\<lambda>d (k, v). AList.update k (jsonable v) d) acc payload = acc @ payload"
  using assms
proof (induction payload arbitrary: acc)
  case Nil
  then show ?case by simp
next
  case (Cons kv payload)
  obtain k v where kv: "kv = (k, v)" by (cases kv)
  have fresh: "k \<notin> fst ` set acc" using Cons.prems(1) kv by auto
  have pv: "jsonable v = v" using Cons.prems(2) kv by (simp add: jsonable_plain)
  have step: "AList.update k (jsonable v) acc = acc @ [(k, v)]"
    using fresh pv by (simp add: update_fresh)
  have d: "distinct (map fst (acc @ [(k, v)]) @ map fst payload)"
    using Cons.prems(1) kv by auto
  have "foldl (\<lambda>d (k, v). AList.update k (jsonable v) d) (acc @ [(k, v)]) payload
          = (acc @ [(k, v)]) @ payload"
    using Cons.IH[OF d] Cons.prems(2) by simp
  then show ?case using step kv by simp
qed

lemma map_of_merge_meta:
  "map_of (merge_meta d meta) k =
     (case map_of (rev meta) k of Some v \<Rightarrow> Some (jsonable v) | None \<Rightarrow> map_of d k)"
  unfolding merge_meta_def
proof (induction meta arbitrary: d)
  case Nil
  then show ?case by simp
next
  case (Cons kv meta)
  obtain k' v' where kv: "kv = (k', v')" by (cases kv)
  show ?case
    by (simp add: kv Cons.IH AList.update_conv' map_add_def split: option.splits)
qed


lemma dict_get_update_other: "k' \<noteq> k \<Longrightarrow> dict_get (AList.update k v d) k' = dict_get d k'"
  by (simp add: dict_get_def AList.update_conv')

lemma keys_update: "fst ` set (AList.update k v d) = insert k (fst ` set d)"
  by (induction d) auto

lemma strip_nonempty_truthy: "strip s \<noteq> [] \<Longrightarrow> truthy (PStr s)"
  by (auto simp: strip_def)

lemma strip_script: "strip ''script'' = ''script''"
  by (simp add: strip_def isspace_def)

lemma lower_script: "lower ''script'' = ''script''"
  by (simp add: lower_def lower_char_def)


section \<open>Value normalizer and output round trip\<close>

text \<open>
  C8. The normalizer returns every primitive, and every list or mapping made entirely
  of primitives, unchanged; and a mapping of such values given to \<open>set_output\<close> is
  what the recorder's output holds afterwards: the same items, and the same value
  under every key.
\<close>

theorem jsonable_identity_on_plain:
  "(plain v \<longrightarrow> jsonable v = v) \<and>
   (plain (PDict payload) \<and> distinct (map fst payload) \<longrightarrow>
      run_output (set_output r payload) = payload \<and>
      (\<forall>k. dict_get (run_output (set_output r payload)) k = dict_get payload k))"
proof -
  have "foldl (\<lambda>d (k, v). AList.update k (jsonable v) d) [] payload = [] @ payload"
    if "plain (PDict payload)" "distinct (map fst payload)"
    using that by (intro foldl_update_plain) simp_all
  then show ?thesis
    by (simp add: jsonable_plain set_output_def)
qed

theorem jsonable_identity_on_plain_witness:
  "jsonable (PList [PInt 1, PStr ''a'']) = PList [PInt 1, PStr ''a''] \<and>
   run_output (set_output example_recorder [(''rows'', PInt 10), (''ok'', PBool True)])
     = [(''rows'', PInt 10), (''ok'', PBool True)] \<and>
   dict_get (run_output (set_output example_recorder [(''rows'', PInt 10), (''ok'', PBool True)]))
     ''rows'' = PInt 10"
  using jsonable_identity_on_plain
    [of "PList [PInt 1, PStr ''a'']" "[(''rows'', PInt 10), (''ok'', PBool True)]" example_recorder]
  by (simp add: dict_get_def)

section \<open>Flags\<close>

lemma add_flag_no_meta:
  "strip s \<noteq> [] \<Longrightarrow>
   add_flag r (PStr s) [] = Inr (r\<lparr>flags := dict_setdefault (flags r) (strip s) (PBool True)\<rparr>)"
  using strip_nonempty_truthy[of s] by (simp add: add_flag_def keyword_clash_def Let_def)

lemma add_flag_meta:
  "strip s \<noteq> [] \<Longrightarrow> meta \<noteq> [] \<Longrightarrow> \<not> keyword_clash meta \<Longrightarrow>
   add_flag r (PStr s) meta =
     Inr (r\<lparr>flags := AList.update (strip s)
            (PDict (merge_meta (flag_base (dict_get (flags r) (strip s))) meta)) (flags r)\<rparr>)"
  using strip_nonempty_truthy[of s] by (simp add: add_flag_def Let_def)

lemma setdefault_present: "map_of d k = Some v \<Longrightarrow> dict_setdefault d k w = d"
  by (simp add: dict_setdefault_def)

lemma setdefault_absent: "map_of d k = None \<Longrightarrow> dict_setdefault d k w = AList.update k w d"
  by (simp add: dict_setdefault_def)

lemma map_of_setdefault_absent: "map_of d k = None \<Longrightarrow> map_of (dict_setdefault d k w) k = Some w"
  by (simp add: setdefault_absent AList.update_conv')

text \<open>
  C9. For a name that validates, \<open>add_flag\<close> without metadata on a recorder that has
  no entry for the name stores the sentinel \<open>True\<close>, and a second call changes
  nothing; on a recorder that has an entry for the name, in any form, the call
  returns the recorder as it was.
\<close>

theorem add_flag_no_meta_idempotent:
  assumes "strip s \<noteq> []"
  shows "(map_of (flags r) (strip s) = None \<longrightarrow>
            (\<exists>r1. add_flag r (PStr s) [] = Inr r1 \<and>
                  map_of (flags r1) (strip s) = Some (PBool True) \<and>
                  add_flag r1 (PStr s) [] = Inr r1)) \<and>
         (\<forall>v. map_of (flags r) (strip s) = Some v \<longrightarrow> add_flag r (PStr s) [] = Inr r)"
proof (intro conjI impI allI)
  assume absent: "map_of (flags r) (strip s) = None"
  define r1 where "r1 = r\<lparr>flags := dict_setdefault (flags r) (strip s) (PBool True)\<rparr>"
  have a: "add_flag r (PStr s) [] = Inr r1"
    using assms by (simp add: add_flag_no_meta r1_def)
  have b: "map_of (flags r1) (strip s) = Some (PBool True)"
    using absent by (simp add: r1_def map_of_setdefault_absent)
  have "dict_setdefault (flags r1) (strip s) (PBool True) = flags r1"
    using b by (rule setdefault_present)
  then have c: "add_flag r1 (PStr s) [] = Inr r1"
    using assms by (simp add: add_flag_no_meta)
  from a b c show "\<exists>r1. add_flag r (PStr s) [] = Inr r1 \<and>
      map_of (flags r1) (strip s) = Some (PBool True) \<and> add_flag r1 (PStr s) [] = Inr r1"
    by blast
next
  fix v assume "map_of (flags r) (strip s) = Some v"
  then have "dict_setdefault (flags r) (strip s) (PBool True) = flags r"
    by (rule setdefault_present)
  then show "add_flag r (PStr s) [] = Inr r"
    using assms by (simp add: add_flag_no_meta)
qed

theorem add_flag_no_meta_idempotent_witness:
  "strip ''late'' \<noteq> [] \<and>
   add_flag example_recorder (PStr ''late'') []
     = Inr (example_recorder\<lparr>flags := [(''late'', PBool True)]\<rparr>) \<and>
   add_flag (example_recorder\<lparr>flags := [(''late'', PBool True)]\<rparr>) (PStr ''late'') []
     = Inr (example_recorder\<lparr>flags := [(''late'', PBool True)]\<rparr>) \<and>
   add_flag (example_recorder\<lparr>flags := [(''late'', PDict [(''n'', PInt 3)])]\<rparr>) (PStr ''late'') []
     = Inr (example_recorder\<lparr>flags := [(''late'', PDict [(''n'', PInt 3)])]\<rparr>)"
proof -
  have s: "strip ''late'' = ''late''" by (simp add: strip_def isspace_def)
  have n: "strip ''late'' \<noteq> []" by (simp add: s)
  have a: "add_flag example_recorder (PStr ''late'') []
             = Inr (example_recorder\<lparr>flags := [(''late'', PBool True)]\<rparr>)"
    by (simp add: add_flag_no_meta n s dict_setdefault_def example_recorder_def)
  show ?thesis
    using a n
      add_flag_no_meta_idempotent[OF n, of example_recorder]
      add_flag_no_meta_idempotent[OF n, of "example_recorder\<lparr>flags := [(''late'', PDict [(''n'', PInt 3)])]\<rparr>"]
    by (simp add: s example_recorder_def)
qed

lemma flag_base_absent: "map_of d k = None \<Longrightarrow> flag_base (dict_get d k) = []"
  by (simp add: flag_base_def dict_get_def)

lemma flag_base_sentinel: "map_of d k = Some (PBool True) \<Longrightarrow> flag_base (dict_get d k) = []"
  by (simp add: flag_base_def dict_get_def)

lemma flag_base_dict: "map_of d k = Some (PDict m) \<Longrightarrow> flag_base (dict_get d k) = m"
  by (simp add: flag_base_def dict_get_def)

lemma flag_base_scalar:
  "map_of d k = Some v \<Longrightarrow> v \<noteq> PBool True \<Longrightarrow> v \<noteq> PNone \<Longrightarrow> \<forall>m. v \<noteq> PDict m \<Longrightarrow>
   flag_base (dict_get d k) = [(''value'', jsonable v)]"
  by (cases v) (simp_all add: flag_base_def dict_get_def)

lemma flag_base_none: "map_of d k = Some PNone \<Longrightarrow> flag_base (dict_get d k) = []"
  by (simp add: flag_base_def dict_get_def)

lemma add_flag_meta_entry:
  assumes "strip s \<noteq> []" "meta \<noteq> []" "\<not> keyword_clash meta"
  shows "\<exists>r1. add_flag r (PStr s) meta = Inr r1 \<and>
     map_of (flags r1) (strip s)
       = Some (PDict (merge_meta (flag_base (dict_get (flags r) (strip s))) meta))"
  using assms by (simp add: add_flag_meta AList.update_conv')

lemma no_clash_single: "k \<noteq> ''self'' \<Longrightarrow> k \<noteq> ''name'' \<Longrightarrow> \<not> keyword_clash [(k, v)]"
  by (simp add: keyword_clash_def)

text \<open>
  C3, amended. For a name that validates and keywords other than \<open>self\<close> and
  \<open>name\<close> (which Python rejects with \<open>TypeError\<close> when it binds the call): (1) on a
  recorder where the name has no entry or the sentinel, \<open>add_flag\<close> with one keyword
  and then with another leaves a metadata map holding both, each normalized;
  (2) \<open>add_flag\<close> without metadata and then with one keyword leaves a map holding
  that keyword alone; (3) on an existing metadata map the keywords are merged into
  it, and a lookup in the merged map gives the last value written under the key, or
  else the value the map had; (4) an existing entry that is neither the sentinel, nor
  \<open>None\<close>, nor a map is wrapped under the key \<open>value\<close>, normalized, before the
  keywords are merged in; (5) a stored \<open>None\<close> is treated like an absent entry: the
  keywords are merged into an empty map.
\<close>

theorem add_flag_meta_merges:
  assumes "strip s \<noteq> []"
  shows
    "(ka \<noteq> kb \<and> ka \<notin> {''self'', ''name''} \<and> kb \<notin> {''self'', ''name''} \<and>
      (map_of (flags r) (strip s) = None \<or> map_of (flags r) (strip s) = Some (PBool True)) \<longrightarrow>
        (\<exists>r1 r2. add_flag r (PStr s) [(ka, va)] = Inr r1 \<and>
                  add_flag r1 (PStr s) [(kb, vb)] = Inr r2 \<and>
                  map_of (flags r2) (strip s)
                    = Some (PDict [(ka, jsonable va), (kb, jsonable vb)]))) \<and>
     (ka \<notin> {''self'', ''name''} \<and> map_of (flags r) (strip s) = None \<longrightarrow>
        (\<exists>r1 r2. add_flag r (PStr s) [] = Inr r1 \<and>
                  add_flag r1 (PStr s) [(ka, va)] = Inr r2 \<and>
                  map_of (flags r2) (strip s) = Some (PDict [(ka, jsonable va)]))) \<and>
     (meta \<noteq> [] \<and> \<not> keyword_clash meta \<longrightarrow>
        (\<forall>d. map_of (flags r) (strip s) = Some (PDict d) \<longrightarrow>
           (\<exists>r1. add_flag r (PStr s) meta = Inr r1 \<and>
                 map_of (flags r1) (strip s) = Some (PDict (merge_meta d meta)) \<and>
                 (\<forall>k. map_of (merge_meta d meta) k =
                        (case map_of (rev meta) k of
                           Some v \<Rightarrow> Some (jsonable v)
                         | None \<Rightarrow> map_of d k))))) \<and>
     (meta \<noteq> [] \<and> \<not> keyword_clash meta \<longrightarrow>
        (\<forall>v. map_of (flags r) (strip s) = Some v \<and> v \<noteq> PBool True \<and> v \<noteq> PNone \<and>
             (\<forall>d. v \<noteq> PDict d) \<longrightarrow>
           (\<exists>r1. add_flag r (PStr s) meta = Inr r1 \<and>
                 map_of (flags r1) (strip s)
                   = Some (PDict (merge_meta [(''value'', jsonable v)] meta))))) \<and>
     (meta \<noteq> [] \<and> \<not> keyword_clash meta \<and> map_of (flags r) (strip s) = Some PNone \<longrightarrow>
        (\<exists>r1. add_flag r (PStr s) meta = Inr r1 \<and>
              map_of (flags r1) (strip s) = Some (PDict (merge_meta [] meta))))"
proof (intro conjI impI allI)
  assume h: "ka \<noteq> kb \<and> ka \<notin> {''self'', ''name''} \<and> kb \<notin> {''self'', ''name''} \<and>
      (map_of (flags r) (strip s) = None \<or> map_of (flags r) (strip s) = Some (PBool True))"
  then have base: "flag_base (dict_get (flags r) (strip s)) = []"
    using flag_base_absent flag_base_sentinel by blast
  have ca: "\<not> keyword_clash [(ka, va)]" and cb: "\<not> keyword_clash [(kb, vb)]"
    using h by (simp_all add: no_clash_single)
  obtain r1 where r1: "add_flag r (PStr s) [(ka, va)] = Inr r1"
    and f1: "map_of (flags r1) (strip s) = Some (PDict (merge_meta [] [(ka, va)]))"
    using add_flag_meta_entry[OF assms _ ca, of r] base by auto
  have m1: "merge_meta [] [(ka, va)] = [(ka, jsonable va)]"
    by (simp add: merge_meta_def)
  have base1: "flag_base (dict_get (flags r1) (strip s)) = [(ka, jsonable va)]"
    using f1 m1 by (simp add: flag_base_dict)
  obtain r2 where r2: "add_flag r1 (PStr s) [(kb, vb)] = Inr r2"
    and f2: "map_of (flags r2) (strip s)
               = Some (PDict (merge_meta [(ka, jsonable va)] [(kb, vb)]))"
    using add_flag_meta_entry[OF assms _ cb, of r1] base1 by auto
  have "merge_meta [(ka, jsonable va)] [(kb, vb)] = [(ka, jsonable va), (kb, jsonable vb)]"
    using h by (simp add: merge_meta_def)
  with r1 r2 f2 show "\<exists>r1 r2. add_flag r (PStr s) [(ka, va)] = Inr r1 \<and>
      add_flag r1 (PStr s) [(kb, vb)] = Inr r2 \<and>
      map_of (flags r2) (strip s) = Some (PDict [(ka, jsonable va), (kb, jsonable vb)])"
    by auto
next
  assume h: "ka \<notin> {''self'', ''name''} \<and> map_of (flags r) (strip s) = None"
  then have absent: "map_of (flags r) (strip s) = None" by simp
  have ca: "\<not> keyword_clash [(ka, va)]"
    using h by (simp add: no_clash_single)
  define r1 where "r1 = r\<lparr>flags := dict_setdefault (flags r) (strip s) (PBool True)\<rparr>"
  have a: "add_flag r (PStr s) [] = Inr r1"
    using assms by (simp add: add_flag_no_meta r1_def)
  have "map_of (flags r1) (strip s) = Some (PBool True)"
    using absent by (simp add: r1_def map_of_setdefault_absent)
  then have base: "flag_base (dict_get (flags r1) (strip s)) = []"
    by (rule flag_base_sentinel)
  obtain r2 where r2: "add_flag r1 (PStr s) [(ka, va)] = Inr r2"
    and f2: "map_of (flags r2) (strip s) = Some (PDict (merge_meta [] [(ka, va)]))"
    using add_flag_meta_entry[OF assms _ ca, of r1] base by auto
  have "merge_meta [] [(ka, va)] = [(ka, jsonable va)]"
    by (simp add: merge_meta_def)
  with a r2 f2 show "\<exists>r1 r2. add_flag r (PStr s) [] = Inr r1 \<and>
      add_flag r1 (PStr s) [(ka, va)] = Inr r2 \<and>
      map_of (flags r2) (strip s) = Some (PDict [(ka, jsonable va)])"
    by auto
next
  fix d
  assume m: "meta \<noteq> [] \<and> \<not> keyword_clash meta"
    and e: "map_of (flags r) (strip s) = Some (PDict d)"
  have base: "flag_base (dict_get (flags r) (strip s)) = d"
    using e by (rule flag_base_dict)
  show "\<exists>r1. add_flag r (PStr s) meta = Inr r1 \<and>
      map_of (flags r1) (strip s) = Some (PDict (merge_meta d meta)) \<and>
      (\<forall>k. map_of (merge_meta d meta) k =
         (case map_of (rev meta) k of Some v \<Rightarrow> Some (jsonable v) | None \<Rightarrow> map_of d k))"
    using add_flag_meta_entry[OF assms, of meta r] m base map_of_merge_meta[of d meta] by auto
next
  fix v
  assume m: "meta \<noteq> [] \<and> \<not> keyword_clash meta"
    and e: "map_of (flags r) (strip s) = Some v \<and> v \<noteq> PBool True \<and> v \<noteq> PNone \<and>
            (\<forall>d. v \<noteq> PDict d)"
  have base: "flag_base (dict_get (flags r) (strip s)) = [(''value'', jsonable v)]"
    using e by (intro flag_base_scalar) auto
  show "\<exists>r1. add_flag r (PStr s) meta = Inr r1 \<and>
      map_of (flags r1) (strip s) = Some (PDict (merge_meta [(''value'', jsonable v)] meta))"
    using add_flag_meta_entry[OF assms, of meta r] m base by auto
next
  assume m: "meta \<noteq> [] \<and> \<not> keyword_clash meta \<and> map_of (flags r) (strip s) = Some PNone"
  then have base: "flag_base (dict_get (flags r) (strip s)) = []"
    by (simp add: flag_base_none)
  show "\<exists>r1. add_flag r (PStr s) meta = Inr r1 \<and>
      map_of (flags r1) (strip s) = Some (PDict (merge_meta [] meta))"
    using add_flag_meta_entry[OF assms, of meta r] m base by auto
qed

text \<open>
  C3 as stated fails: the entry stored for \<open>x\<close> is \<open>None\<close>, a scalar that is not a
  map, and \<open>add_flag\<close> with the keyword \<open>a\<close> leaves the map holding \<open>a\<close> alone: the
  entry is not wrapped under \<open>value\<close>.
\<close>

theorem stored_none_not_wrapped:
  "add_flag (example_recorder\<lparr>flags := [(''x'', PNone)]\<rparr>) (PStr ''x'') [(''a'', PInt 1)]
     = Inr (example_recorder\<lparr>flags := [(''x'', PDict [(''a'', PInt 1)])]\<rparr>)"
proof -
  have s: "strip ''x'' = ''x''" by (simp add: strip_def isspace_def)
  have n: "strip ''x'' \<noteq> []" by (simp add: s)
  show ?thesis
    by (simp add: add_flag_meta n s example_recorder_def merge_meta_def flag_base_def dict_get_def
        keyword_clash_def)
qed

theorem add_flag_meta_merges_witness:
  "strip ''x'' \<noteq> [] \<and>
   add_flag example_recorder (PStr ''x'') [(''a'', PInt 1)]
     = Inr (example_recorder\<lparr>flags := [(''x'', PDict [(''a'', PInt 1)])]\<rparr>) \<and>
   add_flag (example_recorder\<lparr>flags := [(''x'', PDict [(''a'', PInt 1)])]\<rparr>) (PStr ''x'')
       [(''b'', PInt 2)]
     = Inr (example_recorder\<lparr>flags := [(''x'', PDict [(''a'', PInt 1), (''b'', PInt 2)])]\<rparr>) \<and>
   add_flag (example_recorder\<lparr>flags := [(''x'', PBool True)]\<rparr>) (PStr ''x'') [(''a'', PInt 1)]
     = Inr (example_recorder\<lparr>flags := [(''x'', PDict [(''a'', PInt 1)])]\<rparr>) \<and>
   add_flag (example_recorder\<lparr>flags := [(''x'', PInt 5)]\<rparr>) (PStr ''x'') [(''a'', PInt 1)]
     = Inr (example_recorder\<lparr>flags := [(''x'', PDict [(''value'', PInt 5), (''a'', PInt 1)])]\<rparr>)"
proof -
  have s: "strip ''x'' = ''x''" by (simp add: strip_def isspace_def)
  have n: "strip ''x'' \<noteq> []" by (simp add: s)
  have m: "[(''a'', PInt 1)] \<noteq> []" by simp
  have ab: "''a'' \<noteq> ''b''" "''a'' \<notin> {''self'', ''name''}" "''b'' \<notin> {''self'', ''name''}"
    by simp_all
  have fresh: "map_of (flags example_recorder) (strip ''x'') = None"
    by (simp add: example_recorder_def)
  have e1: "add_flag example_recorder (PStr ''x'') [(''a'', PInt 1)]
      = Inr (example_recorder\<lparr>flags := [(''x'', PDict [(''a'', PInt 1)])]\<rparr>)"
    by (simp add: add_flag_meta n s example_recorder_def merge_meta_def flag_base_def dict_get_def
        keyword_clash_def)
  have e2: "add_flag (example_recorder\<lparr>flags := [(''x'', PDict [(''a'', PInt 1)])]\<rparr>)
        (PStr ''x'') [(''b'', PInt 2)]
      = Inr (example_recorder\<lparr>flags := [(''x'', PDict [(''a'', PInt 1), (''b'', PInt 2)])]\<rparr>)"
    by (simp add: add_flag_meta n s example_recorder_def merge_meta_def flag_base_def dict_get_def
        keyword_clash_def)
  have e3: "add_flag (example_recorder\<lparr>flags := [(''x'', PBool True)]\<rparr>) (PStr ''x'')
        [(''a'', PInt 1)]
      = Inr (example_recorder\<lparr>flags := [(''x'', PDict [(''a'', PInt 1)])]\<rparr>)"
    by (simp add: add_flag_meta n s example_recorder_def merge_meta_def flag_base_def dict_get_def
        keyword_clash_def)
  have e4: "add_flag (example_recorder\<lparr>flags := [(''x'', PInt 5)]\<rparr>) (PStr ''x'')
        [(''a'', PInt 1)]
      = Inr (example_recorder\<lparr>flags := [(''x'', PDict [(''value'', PInt 5), (''a'', PInt 1)])]\<rparr>)"
    by (simp add: add_flag_meta n s example_recorder_def merge_meta_def flag_base_def dict_get_def
        keyword_clash_def)
  note inst = add_flag_meta_merges[OF n, of "''a''" "''b''" example_recorder "PInt 1" "PInt 2"
      "[(''a'', PInt 1)]"]
  from inst ab fresh have "\<exists>r1 r2. add_flag example_recorder (PStr ''x'') [(''a'', PInt 1)] = Inr r1 \<and>
      add_flag r1 (PStr ''x'') [(''b'', PInt 2)] = Inr r2 \<and>
      map_of (flags r2) (strip ''x'')
        = Some (PDict [(''a'', jsonable (PInt 1)), (''b'', jsonable (PInt 2))])"
    by blast
  then have "add_flag (example_recorder\<lparr>flags := [(''x'', PDict [(''a'', PInt 1)])]\<rparr>)
        (PStr ''x'') [(''b'', PInt 2)]
      = Inr (example_recorder\<lparr>flags := [(''x'', PDict [(''a'', PInt 1), (''b'', PInt 2)])]\<rparr>)"
    using e1 e2 by simp
  with n e1 e3 e4 show ?thesis by simp
qed

section \<open>Run record builder\<close>

lemma from_config_Inr:
  assumes "from_config env cp a_id a_schema a_table a_script a_mode = Inr lg"
  obtains cfg env_id pm host where
    "load_automation_config env cp = Inr (PDict cfg)"
    "read_env_id env = Inr env_id"
    "resolve_id a_id (dict_get cfg ''automation_id'') env_id \<noteq> PNone"
    "py_or (py_or (opt_str a_mode) (dict_get cfg ''path_mode'')) (PStr ''script'') = PStr pm"
    "get_host_context env = Inr host"
    "automation_id lg = resolve_id a_id (dict_get cfg ''automation_id'') env_id"
    "schema_name lg =
       py_or (py_or (opt_str a_schema) (dict_get cfg ''schema_name'')) (PStr ''automations'')"
    "table_name lg =
       py_or (py_or (opt_str a_table) (dict_get cfg ''table_name'')) (PStr ''run_log'')"
    "script_path lg = resolve_entry_script_path env a_script"
    "flags lg = []" "run_output lg = []" "success lg = True"
    "run_context lg =
       dict_update
         (build_context env cp
            (if lower (strip pm) = ''script'' \<and>
                \<not> truthy (opt_str (resolve_entry_script_path env a_script))
             then ''cwd'' else lower (strip pm))
            (resolve_path env
               (if lower (strip pm) = ''script'' \<and>
                   \<not> truthy (opt_str (resolve_entry_script_path env a_script))
                then ''cwd'' else lower (strip pm))
               (resolve_entry_script_path env a_script))
            (resolve_entry_script_path env a_script))
         host"
  using assms unfolding from_config_def Let_def
  by (auto split: sum.splits pyval.splits if_splits)

section \<open>Entry-point resolver\<close>

lemma main_signal_isfile: "main_signal env = Some p \<Longrightarrow> env_isfile env p"
  by (auto simp: main_signal_def Let_def split: option.splits if_splits)

lemma argv_signal_isfile: "argv_signal env = Some p \<Longrightarrow> env_isfile env p"
  by (auto simp: argv_signal_def Let_def split: list.splits if_splits)

lemma stack_scan_isfile: "stack_scan env frames = Some p \<Longrightarrow> env_isfile env p"
  by (induction frames) (auto simp: Let_def split: if_splits)

lemma stack_signal_isfile: "stack_signal env = Some p \<Longrightarrow> env_isfile env p"
  by (auto simp: stack_signal_def split: sum.splits dest: stack_scan_isfile)

lemma resolve_explicit:
  "e \<noteq> [] \<Longrightarrow>
   resolve_entry_script_path env (Some e) =
     (if env_isfile env (env_abspath env e) then Some (env_abspath env e) else None)"
  by (simp add: resolve_entry_script_path_def opt_str_def Let_def)

lemma resolve_no_explicit:
  "explicit = None \<or> explicit = Some [] \<Longrightarrow>
   resolve_entry_script_path env explicit =
     (case main_signal env of
        Some p \<Rightarrow> Some p
      | None \<Rightarrow> (case argv_signal env of
                   Some p \<Rightarrow> Some p
                 | None \<Rightarrow> stack_signal env))"
  by (auto simp: resolve_entry_script_path_def opt_str_def split: option.splits)

text \<open>
  C4, amended. A non-empty explicit override decides alone: the resolver returns its
  absolute path when that names an existing file and nothing otherwise, whatever the
  other signals hold. Without an override (none, or the empty string) the main-module
  file is tried first and the first command-line argument second, the first success
  winning. Every path returned names an existing file. The resolver is a total
  function into an optional path: no call raises.
\<close>

theorem resolve_entry_script_path_order:
  "(e \<noteq> [] \<longrightarrow>
      resolve_entry_script_path env (Some e) =
        (if env_isfile env (env_abspath env e) then Some (env_abspath env e) else None)) \<and>
   (explicit = None \<or> explicit = Some [] \<longrightarrow>
      (\<forall>p. main_signal env = Some p \<longrightarrow> resolve_entry_script_path env explicit = Some p) \<and>
      (\<forall>p. main_signal env = None \<and> argv_signal env = Some p \<longrightarrow>
           resolve_entry_script_path env explicit = Some p)) \<and>
   (\<forall>p. resolve_entry_script_path env explicit = Some p \<longrightarrow> env_isfile env p)"
proof (intro conjI impI allI)
  assume "e \<noteq> []"
  then show "resolve_entry_script_path env (Some e) =
      (if env_isfile env (env_abspath env e) then Some (env_abspath env e) else None)"
    by (rule resolve_explicit)
next
  fix p assume "explicit = None \<or> explicit = Some []" "main_signal env = Some p"
  then show "resolve_entry_script_path env explicit = Some p"
    by (simp add: resolve_no_explicit)
next
  fix p assume "explicit = None \<or> explicit = Some []"
    "main_signal env = None \<and> argv_signal env = Some p"
  then show "resolve_entry_script_path env explicit = Some p"
    by (simp add: resolve_no_explicit)
next
  fix p assume r: "resolve_entry_script_path env explicit = Some p"
  show "env_isfile env p"
  proof (cases "explicit = None \<or> explicit = Some []")
    case True
    with r show ?thesis
      by (auto simp: resolve_no_explicit split: option.splits
          dest: main_signal_isfile argv_signal_isfile stack_signal_isfile)
  next
    case False
    then obtain e where "explicit = Some e" "e \<noteq> []" by (cases explicit) auto
    with r show ?thesis by (auto simp: resolve_explicit split: if_splits)
  qed
qed

lemma map_of_dict_update:
  "map_of (dict_update d other) k =
     (case map_of (rev other) k of Some v \<Rightarrow> Some v | None \<Rightarrow> map_of d k)"
  unfolding dict_update_def
proof (induction other arbitrary: d)
  case Nil
  then show ?case by simp
next
  case (Cons kv other)
  obtain k' v' where kv: "kv = (k', v')" by (cases kv)
  show ?case
    by (simp add: kv Cons.IH AList.update_conv' map_add_def split: option.splits)
qed

lemma dict_get_dict_update_other:
  "k \<notin> fst ` set other \<Longrightarrow> dict_get (dict_update d other) k = dict_get d k"
proof -
  assume "k \<notin> fst ` set other"
  then have "map_of (rev other) k = None"
    by (simp add: map_of_eq_None_iff)
  then show ?thesis by (simp add: dict_get_def map_of_dict_update)
qed

lemma host_context_keys:
  "get_host_context env = Inr host \<Longrightarrow>
   map fst host = [''host_name'', ''computername'', ''fqdn'', ''host_ip'', ''platform'', ''python'']"
  by (auto simp: get_host_context_def Let_def split: sum.splits if_splits)

lemma build_context_path_mode:
  "dict_get (build_context env cp mode resolved entry) ''path_mode'' = PStr mode"
  by (simp add: build_context_def Let_def dict_get_def AList.update_conv'
      split: option.splits)

lemma build_context_resolved_path:
  "dict_get (build_context env cp mode resolved entry) ''resolved_path'' = PStr resolved"
  by (simp add: build_context_def Let_def dict_get_def AList.update_conv'
      split: option.splits)

lemma recorded_context:
  assumes "get_host_context env = Inr host"
  shows "dict_get (dict_update (build_context env cp mode resolved entry) host) ''path_mode''
           = PStr mode"
    and "dict_get (dict_update (build_context env cp mode resolved entry) host) ''resolved_path''
           = PStr resolved"
proof -
  have keys: "fst ` set host
      = {''host_name'', ''computername'', ''fqdn'', ''host_ip'', ''platform'', ''python''}"
    using host_context_keys[OF assms] by (metis list.set_map list.simps(15) empty_set)
  have "''path_mode'' \<notin> fst ` set host" "''resolved_path'' \<notin> fst ` set host"
    by (simp_all add: keys)
  then show
    "dict_get (dict_update (build_context env cp mode resolved entry) host) ''path_mode''
       = PStr mode"
    "dict_get (dict_update (build_context env cp mode resolved entry) host) ''resolved_path''
       = PStr resolved"
    by (simp_all add: dict_get_dict_update_other build_context_path_mode
        build_context_resolved_path)
qed

text \<open>
  C5. When the builder succeeds and the requested path mode (argument, else config
  value, else \<open>script\<close>; trimmed and lower-cased) is \<open>script\<close> while the entry-point
  resolver finds nothing, the context records the mode \<open>cwd\<close> and the working
  directory as the resolved path. Conversely, whenever the context records the mode
  \<open>script\<close>, an entry script was found and the resolved path is its directory: the
  recorded mode matches the method used.
\<close>

theorem script_mode_downgraded_to_cwd:
  assumes "from_config env cp a_id a_schema a_table a_script a_mode = Inr lg"
    and "load_automation_config env cp = Inr (PDict cfg)"
    and "py_or (py_or (opt_str a_mode) (dict_get cfg ''path_mode'')) (PStr ''script'') = PStr pm"
  shows
    "(lower (strip pm) = ''script'' \<and> resolve_entry_script_path env a_script = None \<longrightarrow>
        dict_get (run_context lg) ''path_mode'' = PStr ''cwd'' \<and>
        dict_get (run_context lg) ''resolved_path'' = PStr (env_getcwd env)) \<and>
     (dict_get (run_context lg) ''path_mode'' = PStr ''script'' \<longrightarrow>
        (\<exists>p. resolve_entry_script_path env a_script = Some p \<and> p \<noteq> [] \<and>
             dict_get (run_context lg) ''resolved_path''
               = PStr (env_dirname env (env_abspath env p))))"
proof -
  let ?entry = "resolve_entry_script_path env a_script"
  let ?mode = "if lower (strip pm) = ''script'' \<and> \<not> truthy (opt_str ?entry)
               then ''cwd'' else lower (strip pm)"
  from assms(1) obtain cfg' pm' host where
    l: "load_automation_config env cp = Inr (PDict cfg')"
    and p: "py_or (py_or (opt_str a_mode) (dict_get cfg' ''path_mode'')) (PStr ''script'')
              = PStr pm'"
    and h: "get_host_context env = Inr host"
    and c: "run_context lg =
       dict_update
         (build_context env cp
            (if lower (strip pm') = ''script'' \<and> \<not> truthy (opt_str ?entry)
             then ''cwd'' else lower (strip pm'))
            (resolve_path env
               (if lower (strip pm') = ''script'' \<and> \<not> truthy (opt_str ?entry)
                then ''cwd'' else lower (strip pm'))
               ?entry)
            ?entry)
         host"
    by (rule from_config_Inr)
  have "cfg' = cfg" using l assms(2) by simp
  then have "pm' = pm" using p assms(3) by simp
  with c have ctx: "run_context lg =
      dict_update (build_context env cp ?mode (resolve_path env ?mode ?entry) ?entry) host"
    by simp
  have mode: "dict_get (run_context lg) ''path_mode'' = PStr ?mode"
    and res: "dict_get (run_context lg) ''resolved_path'' = PStr (resolve_path env ?mode ?entry)"
    unfolding ctx by (rule recorded_context[OF h])+
  have down: "dict_get (run_context lg) ''path_mode'' = PStr ''cwd'' \<and>
      dict_get (run_context lg) ''resolved_path'' = PStr (env_getcwd env)"
    if "lower (strip pm) = ''script''" "?entry = None"
    using that mode res by (simp add: opt_str_def resolve_path_def)
  have up: "\<exists>p. ?entry = Some p \<and> p \<noteq> [] \<and>
      dict_get (run_context lg) ''resolved_path'' = PStr (env_dirname env (env_abspath env p))"
    if "dict_get (run_context lg) ''path_mode'' = PStr ''script''"
  proof -
    from that mode have m: "?mode = ''script''" by simp
    then have "truthy (opt_str ?entry)" by (auto split: if_splits)
    then obtain p where e: "?entry = Some p" "p \<noteq> []"
      by (cases ?entry) (auto simp: opt_str_def)
    have "resolve_path env ''script'' (Some p) = env_dirname env (env_abspath env p)"
      using e(2) by (simp add: resolve_path_def strip_script lower_script)
    with res m e show ?thesis by simp
  qed
  from down up show ?thesis by blast
qed

lemma from_config_no_id:
  assumes "load_automation_config env cp = Inr (PDict cfg)"
    and "dict_get cfg ''automation_id'' = PNone"
    and "read_env_id env = Inr PNone"
  shows "from_config env cp None a_schema a_table a_script a_mode = Inl missing_id_error"
  using assms by (simp add: from_config_def resolve_id_def)

text \<open>
  C1, amended. Each field is taken from the first source that is present, field by
  field. For a construction that succeeds on the config dictionary \<open>cfg\<close>:
  \<open>automation_id\<close> is the explicit argument when one is given, else the config value
  when it is not null, else the integer read from \<open>AUTOMATION_ID\<close>; \<open>schema_name\<close>
  and \<open>table_name\<close> are the explicit argument when it is a non-empty string, else the
  config value when it is truthy, else \<open>automations\<close> and \<open>run_log\<close>; the path mode
  is chosen the same way with the default \<open>script\<close>, trimmed and lower-cased, and the
  context records it (as \<open>cwd\<close> when it is \<open>script\<close> and no entry script is found).
  An explicit empty string counts as absent, and only \<open>automation_id\<close> has an
  environment source. With no \<open>automation_id\<close> from any source the construction
  fails with \<open>ValueError\<close>.
\<close>

theorem from_config_precedence:
  "(from_config env cp a_id a_schema a_table a_script a_mode = Inr lg \<and>
    load_automation_config env cp = Inr (PDict cfg) \<longrightarrow>
      (\<forall>i. a_id = Some i \<longrightarrow> automation_id lg = PInt i) \<and>
      (a_id = None \<and> dict_get cfg ''automation_id'' \<noteq> PNone \<longrightarrow>
         automation_id lg = dict_get cfg ''automation_id'') \<and>
      (a_id = None \<and> dict_get cfg ''automation_id'' = PNone \<longrightarrow>
         read_env_id env = Inr (automation_id lg) \<and> automation_id lg \<noteq> PNone) \<and>
      (\<forall>s. a_schema = Some s \<and> s \<noteq> [] \<longrightarrow> schema_name lg = PStr s) \<and>
      ((a_schema = None \<or> a_schema = Some []) \<and> truthy (dict_get cfg ''schema_name'') \<longrightarrow>
         schema_name lg = dict_get cfg ''schema_name'') \<and>
      ((a_schema = None \<or> a_schema = Some []) \<and> \<not> truthy (dict_get cfg ''schema_name'') \<longrightarrow>
         schema_name lg = PStr ''automations'') \<and>
      (\<forall>s. a_table = Some s \<and> s \<noteq> [] \<longrightarrow> table_name lg = PStr s) \<and>
      ((a_table = None \<or> a_table = Some []) \<and> truthy (dict_get cfg ''table_name'') \<longrightarrow>
         table_name lg = dict_get cfg ''table_name'') \<and>
      ((a_table = None \<or> a_table = Some []) \<and> \<not> truthy (dict_get cfg ''table_name'') \<longrightarrow>
         table_name lg = PStr ''run_log'') \<and>
      (\<exists>m. (if a_mode \<noteq> None \<and> a_mode \<noteq> Some [] then opt_str a_mode
             else if truthy (dict_get cfg ''path_mode'') then dict_get cfg ''path_mode''
             else PStr ''script'') = PStr m \<and>
           dict_get (run_context lg) ''path_mode'' =
             PStr (if lower (strip m) = ''script'' \<and>
                      \<not> truthy (opt_str (resolve_entry_script_path env a_script))
                   then ''cwd'' else lower (strip m)))) \<and>
   (load_automation_config env cp = Inr (PDict cfg) \<and> a_id = None \<and>
    dict_get cfg ''automation_id'' = PNone \<and> read_env_id env = Inr PNone \<longrightarrow>
      from_config env cp a_id a_schema a_table a_script a_mode = Inl missing_id_error)"
proof (intro conjI impI)
  assume a: "from_config env cp a_id a_schema a_table a_script a_mode = Inr lg \<and>
    load_automation_config env cp = Inr (PDict cfg)"
  let ?entry = "resolve_entry_script_path env a_script"
  from a obtain cfg' env_id pm host where
    l: "load_automation_config env cp = Inr (PDict cfg')"
    and e: "read_env_id env = Inr env_id"
    and ne: "resolve_id a_id (dict_get cfg' ''automation_id'') env_id \<noteq> PNone"
    and p: "py_or (py_or (opt_str a_mode) (dict_get cfg' ''path_mode'')) (PStr ''script'')
              = PStr pm"
    and h: "get_host_context env = Inr host"
    and i: "automation_id lg = resolve_id a_id (dict_get cfg' ''automation_id'') env_id"
    and s: "schema_name lg =
       py_or (py_or (opt_str a_schema) (dict_get cfg' ''schema_name'')) (PStr ''automations'')"
    and t: "table_name lg =
       py_or (py_or (opt_str a_table) (dict_get cfg' ''table_name'')) (PStr ''run_log'')"
    and c: "run_context lg =
       dict_update
         (build_context env cp
            (if lower (strip pm) = ''script'' \<and> \<not> truthy (opt_str ?entry)
             then ''cwd'' else lower (strip pm))
            (resolve_path env
               (if lower (strip pm) = ''script'' \<and> \<not> truthy (opt_str ?entry)
                then ''cwd'' else lower (strip pm))
               ?entry)
            ?entry)
         host"
    by (blast elim: from_config_Inr)
  have cfg: "cfg' = cfg" using l a by simp
  show "\<forall>i. a_id = Some i \<longrightarrow> automation_id lg = PInt i"
    using i by (simp add: resolve_id_def)
  show "automation_id lg = dict_get cfg ''automation_id''"
    if "a_id = None \<and> dict_get cfg ''automation_id'' \<noteq> PNone"
    using that i cfg by (simp add: resolve_id_def)
  show "read_env_id env = Inr (automation_id lg)"
    if "a_id = None \<and> dict_get cfg ''automation_id'' = PNone"
    using that i e cfg by (simp add: resolve_id_def)
  show "automation_id lg \<noteq> PNone"
    if "a_id = None \<and> dict_get cfg ''automation_id'' = PNone"
    using i ne by simp
  show "\<forall>s. a_schema = Some s \<and> s \<noteq> [] \<longrightarrow> schema_name lg = PStr s"
    using s by (simp add: py_or_def opt_str_def)
  show "schema_name lg = dict_get cfg ''schema_name''"
    if "(a_schema = None \<or> a_schema = Some []) \<and> truthy (dict_get cfg ''schema_name'')"
    using that s cfg by (auto simp: py_or_def opt_str_def)
  show "schema_name lg = PStr ''automations''"
    if "(a_schema = None \<or> a_schema = Some []) \<and> \<not> truthy (dict_get cfg ''schema_name'')"
    using that s cfg by (auto simp: py_or_def opt_str_def)
  show "\<forall>s. a_table = Some s \<and> s \<noteq> [] \<longrightarrow> table_name lg = PStr s"
    using t by (simp add: py_or_def opt_str_def)
  show "table_name lg = dict_get cfg ''table_name''"
    if "(a_table = None \<or> a_table = Some []) \<and> truthy (dict_get cfg ''table_name'')"
    using that t cfg by (auto simp: py_or_def opt_str_def)
  show "table_name lg = PStr ''run_log''"
    if "(a_table = None \<or> a_table = Some []) \<and> \<not> truthy (dict_get cfg ''table_name'')"
    using that t cfg by (auto simp: py_or_def opt_str_def)
  have chosen: "(if a_mode \<noteq> None \<and> a_mode \<noteq> Some [] then opt_str a_mode
             else if truthy (dict_get cfg ''path_mode'') then dict_get cfg ''path_mode''
             else PStr ''script'') = PStr pm"
    using p cfg by (cases a_mode) (auto simp: py_or_def opt_str_def split: if_splits)
  have "dict_get (run_context lg) ''path_mode'' =
      PStr (if lower (strip pm) = ''script'' \<and> \<not> truthy (opt_str ?entry)
            then ''cwd'' else lower (strip pm))"
    unfolding c by (rule recorded_context[OF h])
  with chosen show "\<exists>m. (if a_mode \<noteq> None \<and> a_mode \<noteq> Some [] then opt_str a_mode
             else if truthy (dict_get cfg ''path_mode'') then dict_get cfg ''path_mode''
             else PStr ''script'') = PStr m \<and>
           dict_get (run_context lg) ''path_mode'' =
             PStr (if lower (strip m) = ''script'' \<and> \<not> truthy (opt_str ?entry)
                   then ''cwd'' else lower (strip m))"
    by blast
next
  assume "load_automation_config env cp = Inr (PDict cfg) \<and> a_id = None \<and>
    dict_get cfg ''automation_id'' = PNone \<and> read_env_id env = Inr PNone"
  then show "from_config env cp a_id a_schema a_table a_script a_mode = Inl missing_id_error"
    using from_config_no_id by blast
qed

section \<open>Flag keys stay trimmed\<close>

lemma trimmed_strip: "strip s \<noteq> [] \<Longrightarrow> trimmed (strip s)"
  by (simp add: trimmed_def strip_hd strip_last)

lemma list_all_keys_update:
  "list_all (\<lambda>kv. P (fst kv)) d \<Longrightarrow> P k \<Longrightarrow> list_all (\<lambda>kv. P (fst kv)) (AList.update k v d)"
  by (induction d) auto

lemma list_all_keys_setdefault:
  "list_all (\<lambda>kv. P (fst kv)) d \<Longrightarrow> P k \<Longrightarrow> list_all (\<lambda>kv. P (fst kv)) (dict_setdefault d k v)"
  by (simp add: dict_setdefault_def list_all_keys_update split: option.splits)

lemma add_flag_keeps_trimmed:
  assumes "flag_keys_trimmed r" "add_flag r name meta = Inr r'"
  shows "flag_keys_trimmed r'"
proof -
  from assms(2) obtain s where name: "name = PStr s" and ne: "strip s \<noteq> []"
    and kw: "\<not> keyword_clash meta"
    by (auto simp: add_flag_def Let_def split: if_splits pyval.splits)
  have t: "trimmed (strip s)" using ne by (rule trimmed_strip)
  show ?thesis
  proof (cases "meta = []")
    case True
    then have "r' = r\<lparr>flags := dict_setdefault (flags r) (strip s) (PBool True)\<rparr>"
      using assms(2) name ne by (simp add: add_flag_no_meta)
    then show ?thesis
      using assms(1) t by (simp add: flag_keys_trimmed_def list_all_keys_setdefault)
  next
    case False
    then have "r' = r\<lparr>flags := AList.update (strip s)
            (PDict (merge_meta (flag_base (dict_get (flags r) (strip s))) meta)) (flags r)\<rparr>"
      using assms(2) name ne kw by (simp add: add_flag_meta)
    then show ?thesis
      using assms(1) t by (simp add: flag_keys_trimmed_def list_all_keys_update)
  qed
qed

lemma flags_exit: "flags (exit_recorder (exit env r now utcnow exc)) = flags r"
  by (simp add: exit_def Let_def record_error_def split: prod.splits option.splits)

lemma add_flag_padded:
  assumes "\<forall>c\<in>set ws1. isspace c" "\<forall>c\<in>set ws2. isspace c"
  shows "add_flag r (PStr (ws1 @ s @ ws2)) meta = add_flag r (PStr s) meta"
proof -
  have st: "strip (ws1 @ s @ ws2) = strip s" using assms by (rule strip_padded)
  show ?thesis
  proof (cases "s = []")
    case True
    then have "strip s = []" by (simp add: strip_def)
    then show ?thesis using st True by (simp add: add_flag_def Let_def)
  next
    case False
    then show ?thesis using st by (simp add: add_flag_def Let_def)
  qed
qed

text \<open>
  C10. Every key of the flags mapping is a non-empty string with no leading or trailing
  whitespace: the recorder that \<open>from_config\<close> builds has it so, and \<open>add_flag\<close>,
  \<open>set_output\<close>, \<open>add_output\<close>, \<open>mark_failure\<close>, scope entry and finalization keep it
  so. \<open>add_flag\<close> stores under the trimmed name: the entry it leaves for a name that
  validates sits under \<open>strip\<close> of the name, and a name surrounded by whitespace
  gives the same result as the name itself.
\<close>

theorem flag_keys_trimmed_invariant:
  "(\<forall>r0. from_config os cp a_id a_schema a_table a_script a_mode = Inr r0 \<longrightarrow>
        flag_keys_trimmed r0) \<and>
   (flag_keys_trimmed r \<longrightarrow>
      (\<forall>r'. add_flag r name meta = Inr r' \<longrightarrow> flag_keys_trimmed r') \<and>
      flag_keys_trimmed (set_output r payload) \<and>
      flag_keys_trimmed (add_output r key v) \<and>
      flag_keys_trimmed (mark_failure r) \<and>
      flag_keys_trimmed (enter r now utcnow) \<and>
      flag_keys_trimmed (exit_recorder (exit env r now utcnow exc))) \<and>
   (\<forall>r'. add_flag r (PStr s) meta = Inr r' \<longrightarrow>
      strip s \<in> fst ` set (flags r') \<and> trimmed (strip s)) \<and>
   ((\<forall>c\<in>set ws1. isspace c) \<and> (\<forall>c\<in>set ws2. isspace c) \<longrightarrow>
      add_flag r (PStr (ws1 @ s @ ws2)) meta = add_flag r (PStr s) meta)"
proof (intro conjI allI impI)
  fix r0 assume "from_config os cp a_id a_schema a_table a_script a_mode = Inr r0"
  then have "flags r0 = []" by (rule from_config_Inr)
  then show "flag_keys_trimmed r0" by (simp add: flag_keys_trimmed_def)
next
  fix r' assume "flag_keys_trimmed r" "add_flag r name meta = Inr r'"
  then show "flag_keys_trimmed r'" by (rule add_flag_keeps_trimmed)
next
  assume "flag_keys_trimmed r"
  then show "flag_keys_trimmed (set_output r payload)"
    by (simp add: flag_keys_trimmed_def set_output_def)
next
  assume "flag_keys_trimmed r"
  then show "flag_keys_trimmed (add_output r key v)"
    by (simp add: flag_keys_trimmed_def add_output_def)
next
  assume "flag_keys_trimmed r"
  then show "flag_keys_trimmed (mark_failure r)"
    by (simp add: flag_keys_trimmed_def mark_failure_def)
next
  assume "flag_keys_trimmed r"
  then show "flag_keys_trimmed (enter r now utcnow)"
    by (simp add: flag_keys_trimmed_def enter_def)
next
  assume "flag_keys_trimmed r"
  then show "flag_keys_trimmed (exit_recorder (exit env r now utcnow exc))"
    by (simp add: flag_keys_trimmed_def flags_exit)
next
  fix r' assume a: "add_flag r (PStr s) meta = Inr r'"
  then have ne: "strip s \<noteq> []" and kw: "\<not> keyword_clash meta"
    by (auto simp: add_flag_def Let_def split: if_splits)
  show "strip s \<in> fst ` set (flags r')"
  proof (cases "meta = []")
    case True
    then have "r' = r\<lparr>flags := dict_setdefault (flags r) (strip s) (PBool True)\<rparr>"
      using a ne by (simp add: add_flag_no_meta)
    then show ?thesis
      by (auto simp: dict_setdefault_def keys_update map_of_eq_None_iff
          split: option.splits dest: map_of_SomeD intro: rev_image_eqI)
  next
    case False
    then have "r' = r\<lparr>flags := AList.update (strip s)
            (PDict (merge_meta (flag_base (dict_get (flags r) (strip s))) meta)) (flags r)\<rparr>"
      using a ne kw by (simp add: add_flag_meta)
    then show ?thesis by (simp add: keys_update)
  qed
next
  fix r' assume a: "add_flag r (PStr s) meta = Inr r'"
  then have "strip s \<noteq> []"
    by (auto simp: add_flag_def Let_def split: if_splits)
  then show "trimmed (strip s)" by (rule trimmed_strip)
next
  assume "(\<forall>c\<in>set ws1. isspace c) \<and> (\<forall>c\<in>set ws2. isspace c)"
  then show "add_flag r (PStr (ws1 @ s @ ws2)) meta = add_flag r (PStr s) meta"
    by (intro add_flag_padded) auto
qed

section \<open>Finalization\<close>


lemma record_error_t0: "t0 (record_error env r e) = t0 r"
  by (simp add: record_error_def Let_def)



lemma insert_row_Some:
  assumes "snd (insert_row env r succ rt d) = Some row"
  shows "row_success row = succ" "row_duration_ms row = d" "row_run_time row = rt"
    "json_dumps env (PDict (run_output r)) = Inr (row_output row)"
    "fst (insert_row env r succ rt d) = warehouse_execute env row"
  using assms by (auto simp: insert_row_def Let_def split: sum.splits)

lemma exit_row_eq:
  "exit_row (exit env r now utcnow exc) =
     snd (insert_row env (case exc of None \<Rightarrow> r | Some e \<Rightarrow> record_error env r e)
            (success (case exc of None \<Rightarrow> r | Some e \<Rightarrow> record_error env r e))
            (case run_time r of Some t \<Rightarrow> t | None \<Rightarrow> utcnow)
            (duration_ms_of now (t0 r)))"
  by (simp add: exit_def Let_def split: prod.splits option.splits)

lemma exit_outcome_eq:
  "exit_outcome (exit env r now utcnow exc) =
     (case fst (insert_row env (case exc of None \<Rightarrow> r | Some e \<Rightarrow> record_error env r e)
            (success (case exc of None \<Rightarrow> r | Some e \<Rightarrow> record_error env r e))
            (case run_time r of Some t \<Rightarrow> t | None \<Rightarrow> utcnow)
            (duration_ms_of now (t0 r))) of
        None \<Rightarrow> Inr False
      | Some x \<Rightarrow> if exn_is_Exception x then Inr False else Inl x)"
  by (simp add: exit_def Let_def split: prod.splits option.splits)

lemma exit_printed_eq:
  "exit_printed (exit env r now utcnow exc) =
     (case fst (insert_row env (case exc of None \<Rightarrow> r | Some e \<Rightarrow> record_error env r e)
            (success (case exc of None \<Rightarrow> r | Some e \<Rightarrow> record_error env r e))
            (case run_time r of Some t \<Rightarrow> t | None \<Rightarrow> utcnow)
            (duration_ms_of now (t0 r))) of
        None \<Rightarrow> []
      | Some x \<Rightarrow> if exn_is_Exception x
                  then [''[AutomationRunLogger] Failed to log run: '' @ exn_str x] else [])"
  by (simp add: exit_def Let_def split: prod.splits option.splits)

lemma insert_row_failure_kind:
  assumes "\<forall>row x. warehouse_execute env row = Some x \<longrightarrow> exn_is_Exception x"
    and "\<forall>v x. json_dumps env v = Inl x \<longrightarrow> exn_is_Exception x"
    and "fst (insert_row env r succ rt d) = Some x"
  shows "exn_is_Exception x"
  using assms by (auto simp: insert_row_def Let_def split: sum.splits)




text \<open>
  C6, amended. When \<open>_insert_row\<close> raises an exception that derives from
  \<open>Exception\<close>, \<open>__exit__\<close> prints the report line and returns \<open>False\<close>: the failure
  does not reach the caller, who sees the exception of the monitored work if there
  was one and a normal return otherwise.
\<close>

theorem persistence_failure_swallowed:
  assumes "work (enter r t_in utc_in) = (raised, r1)"
    and "fst (insert_row env
           (case raised of None \<Rightarrow> r1 | Some e \<Rightarrow> record_error env r1 e)
           (success (case raised of None \<Rightarrow> r1 | Some e \<Rightarrow> record_error env r1 e))
           (case run_time r1 of Some t \<Rightarrow> t | None \<Rightarrow> utc_out)
           (duration_ms_of t_out (t0 r1))) = Some x"
    and "exn_is_Exception x"
  shows
    "exit_outcome (exit env r1 t_out utc_out raised) = Inr False \<and>
     exit_printed (exit env r1 t_out utc_out raised)
       = [''[AutomationRunLogger] Failed to log run: '' @ exn_str x] \<and>
     scope_outcome (run_scope env r t_in utc_in work t_out utc_out)
       = (case raised of None \<Rightarrow> Returned | Some e \<Rightarrow> Raised e)"
proof -
  have a: "exit_outcome (exit env r1 t_out utc_out raised) = Inr False"
    using assms(2,3) by (simp add: exit_outcome_eq)
  have b: "exit_printed (exit env r1 t_out utc_out raised)
       = [''[AutomationRunLogger] Failed to log run: '' @ exn_str x]"
    using assms(2,3) by (simp add: exit_printed_eq)
  have "scope_outcome (run_scope env r t_in utc_in work t_out utc_out) =
      (case exit_outcome (exit env r1 t_out utc_out raised) of
         Inl e \<Rightarrow> Raised e
       | Inr suppress \<Rightarrow>
           (case raised of
              None \<Rightarrow> Returned
            | Some e \<Rightarrow> if suppress then Returned else Raised e))"
    using assms(1) by (simp add: run_scope_def Let_def)
  then have c: "scope_outcome (run_scope env r t_in utc_in work t_out utc_out)
       = (case raised of None \<Rightarrow> Returned | Some e \<Rightarrow> Raised e)"
    by (simp add: a split: option.splits)
  from a b c show ?thesis by simp
qed

lemma pow2_pos: "0 < pow2 e"
  by (simp add: pow2_def)

lemma ulp_pos: "0 < ulp x"
  by (simp add: ulp_def pow2_pos)

lemma round_half_even_nonneg: "0 \<le> x \<Longrightarrow> 0 \<le> round_half_even x"
  by (auto simp: round_half_even_def Let_def)

lemma round_half_even_nonpos:
  assumes "x \<le> 0"
  shows "round_half_even x \<le> 0"
proof -
  have f: "\<lfloor>x\<rfloor> \<le> 0" using assms by (simp add: floor_le_zero)
  show ?thesis
  proof (cases "x - of_int \<lfloor>x\<rfloor> < 1 / 2")
    case True
    then show ?thesis using f by (simp add: round_half_even_def Let_def)
  next
    case False
    then have "of_int \<lfloor>x\<rfloor> < x" by linarith
    then have "of_int \<lfloor>x\<rfloor> < (0 :: rat)" using assms by linarith
    then have "\<lfloor>x\<rfloor> < 0" by simp
    then have "\<lfloor>x\<rfloor> + 1 \<le> 0" by linarith
    then show ?thesis using f by (auto simp: round_half_even_def Let_def)
  qed
qed

lemma round_double_nonneg: "0 \<le> x \<Longrightarrow> 0 \<le> round_double x"
proof -
  assume x: "0 \<le> x"
  have "0 \<le> x / ulp x" using x ulp_pos[of x] by simp
  then have "0 \<le> round_half_even (x / ulp x)" by (rule round_half_even_nonneg)
  then show ?thesis
    using ulp_pos[of x] by (simp add: round_double_def)
qed

lemma round_double_nonpos: "x \<le> 0 \<Longrightarrow> round_double x \<le> 0"
proof -
  assume x: "x \<le> 0"
  have "x / ulp x \<le> 0" using x ulp_pos[of x] by (simp add: divide_nonpos_pos)
  then have "round_half_even (x / ulp x) \<le> 0" by (rule round_half_even_nonpos)
  then have "rat_of_int (round_half_even (x / ulp x)) * ulp x \<le> 0"
    using ulp_pos[of x] by (simp add: mult_le_0_iff)
  then show ?thesis by (simp add: round_double_def)
qed

lemma duration_ms_nonneg: "start \<le> now \<Longrightarrow> 0 \<le> duration_ms_of now start"
proof -
  assume "start \<le> now"
  then have "0 \<le> round_double (now - start)" by (simp add: round_double_nonneg)
  then have "0 \<le> round_double (round_double (now - start) * 1000)"
    by (simp add: round_double_nonneg)
  then show ?thesis by (simp add: duration_ms_of_def py_int_def)
qed

lemma duration_ms_nonpos: "now \<le> start \<Longrightarrow> duration_ms_of now start \<le> 0"
proof -
  assume "now \<le> start"
  then have "round_double (now - start) \<le> 0" by (simp add: round_double_nonpos)
  then have "round_double (now - start) * 1000 \<le> 0" by simp
  then have r: "round_double (round_double (now - start) * 1000) \<le> 0"
    by (rule round_double_nonpos)
  show ?thesis
  proof (cases "round_double (round_double (now - start) * 1000) = 0")
    case True
    then show ?thesis by (simp add: duration_ms_of_def py_int_def)
  next
    case False
    with r have "round_double (round_double (now - start) * 1000) < 0" by simp
    then show ?thesis
      using r by (simp add: duration_ms_of_def py_int_def ceiling_le_zero)
  qed
qed

text \<open>
  C7, amended. The duration handed to the warehouse is the integer
  \<open>int((time.time() - t0) * 1000)\<close>, computed in double arithmetic from the clock
  reading taken at scope entry; it is non-negative whenever the reading at
  finalization is not earlier than the reading at entry, and never positive when the
  clock has gone back.
\<close>

theorem duration_ms_elapsed:
  "t0 (enter r t_in utc_in) = t_in \<and>
   (\<forall>row. exit_row (exit env r1 t_out utc_out exc) = Some row \<longrightarrow>
      row_duration_ms row = py_int (round_double (round_double (t_out - t0 r1) * 1000)) \<and>
      (t0 r1 \<le> t_out \<longrightarrow> 0 \<le> row_duration_ms row) \<and>
      (t_out \<le> t0 r1 \<longrightarrow> row_duration_ms row \<le> 0)) \<and>
   (work (enter r t_in utc_in) = (raised, r1) \<and> t0 r1 = t_in \<and> t_in \<le> t_out \<longrightarrow>
      (\<forall>row. scope_row (run_scope env r t_in utc_in work t_out utc_out) = Some row \<longrightarrow>
         0 \<le> row_duration_ms row))"
proof -
  have d: "row_duration_ms row = duration_ms_of t_out (t0 r1)"
    if "exit_row (exit env r1 t_out utc_out exc) = Some row" for row exc
    using that insert_row_Some(2) by (simp add: exit_row_eq)
  have s: "0 \<le> row_duration_ms row"
    if w: "work (enter r t_in utc_in) = (raised, r1) \<and> t0 r1 = t_in \<and> t_in \<le> t_out"
      and row: "scope_row (run_scope env r t_in utc_in work t_out utc_out) = Some row" for row
  proof -
    have "scope_row (run_scope env r t_in utc_in work t_out utc_out)
        = exit_row (exit env r1 t_out utc_out raised)"
      using w by (simp add: run_scope_def Let_def)
    with row have "row_duration_ms row = duration_ms_of t_out (t0 r1)"
      using d by simp
    with w show ?thesis by (simp add: duration_ms_nonneg)
  qed
  show ?thesis
  proof (intro conjI allI impI)
    show "t0 (enter r t_in utc_in) = t_in" by (simp add: enter_def)
  next
    fix row assume "exit_row (exit env r1 t_out utc_out exc) = Some row"
    then show "row_duration_ms row = py_int (round_double (round_double (t_out - t0 r1) * 1000))"
      using d by (simp add: duration_ms_of_def)
  next
    fix row assume "exit_row (exit env r1 t_out utc_out exc) = Some row" "t0 r1 \<le> t_out"
    then show "0 \<le> row_duration_ms row" using d by (simp add: duration_ms_nonneg)
  next
    fix row assume "exit_row (exit env r1 t_out utc_out exc) = Some row" "t_out \<le> t0 r1"
    then show "row_duration_ms row \<le> 0" using d by (simp add: duration_ms_nonpos)
  next
    fix row
    assume "work (enter r t_in utc_in) = (raised, r1) \<and> t0 r1 = t_in \<and> t_in \<le> t_out"
      "scope_row (run_scope env r t_in utc_in work t_out utc_out) = Some row"
    then show "0 \<le> row_duration_ms row" by (rule s)
  qed
qed

section \<open>The concrete instances, evaluated\<close>

lemma example_load:
  "load_automation_config example_os_env ''automation.config''
     = Inr (PDict [(''automation_id'', PInt 12), (''schema_name'', PStr ''ops'')])"
  by (simp add: load_automation_config_def example_os_env_def)

lemma example_env_id: "read_env_id example_os_env = Inr (PInt 42)"
  by (simp add: read_env_id_def example_os_env_def isdigit_def isdigit_char_def
      int_of_digits_def decimal_char_def)

lemma example_host:
  "get_host_context example_os_env =
     Inr [(''host_name'', PStr ''worker1''), (''computername'', PNone),
          (''fqdn'', PStr ''worker1.example.org''), (''host_ip'', PStr ''10.0.0.5''),
          (''platform'', PStr ''Linux''), (''python'', PStr ''3.11'')]"
  by (simp add: get_host_context_def example_os_env_def opt_str_def)

lemma example_entry_found:
  "resolve_entry_script_path example_os_env None = Some ''/srv/job/main.py''"
  by (simp add: resolve_entry_script_path_def opt_str_def main_signal_def example_os_env_def)

lemma example_entry_missing:
  "resolve_entry_script_path example_os_env (Some ''missing.py'') = None"
  by (simp add: resolve_entry_script_path_def opt_str_def example_os_env_def)

lemma example_built:
  "from_config example_os_env ''automation.config'' None None None None None =
     Inr \<lparr>automation_id = PInt 12, schema_name = PStr ''ops'', table_name = PStr ''run_log'',
          script_path = Some ''/srv/job/main.py'', run_output = [],
          run_context =
            [(''config_path'', PStr ''automation.config''),
             (''path_mode'', PStr ''script''), (''cwd'', PStr ''/srv/job''),
             (''resolved_path'', PStr ''/srv/job''),
             (''entry_script_path'', PStr ''/srv/job/main.py''),
             (''entry_script_dir'', PStr ''/srv/job''),
             (''host_name'', PStr ''worker1''), (''computername'', PNone),
             (''fqdn'', PStr ''worker1.example.org''),
             (''host_ip'', PStr ''10.0.0.5''), (''platform'', PStr ''Linux''),
             (''python'', PStr ''3.11'')],
          flags = [], t0 = 100, success = True, run_time = None\<rparr>"
proof -
  have rp: "resolve_path example_os_env ''script'' (Some ''/srv/job/main.py'') = ''/srv/job''"
    by (simp add: resolve_path_def strip_script lower_script example_os_env_def)
  have dn: "env_dirname example_os_env ''/srv/job/main.py'' = ''/srv/job''"
    by (simp add: example_os_env_def)
  have cwd: "env_getcwd example_os_env = ''/srv/job''" "env_time example_os_env = 100"
    by (simp_all add: example_os_env_def)
  show ?thesis
    by (simp add: from_config_def example_load example_env_id example_host example_entry_found
        resolve_id_def dict_get_def py_or_def opt_str_def strip_script lower_script rp dn cwd
        build_context_def dict_update_def Let_def)
qed

lemma example_requested_script: "lower (strip ''Script '') = ''script''"
proof -
  have "strip ''Script '' = ''Script''" by (simp add: strip_def isspace_def)
  moreover have "lower ''Script'' = ''script''" by (simp add: lower_def lower_char_def char_of_def bit_0)
  ultimately show ?thesis by simp
qed

lemma example_built_missing:
  "from_config example_os_env ''automation.config'' (Some 7) (Some []) None
       (Some ''missing.py'') (Some ''Script '') =
     Inr \<lparr>automation_id = PInt 7, schema_name = PStr ''ops'', table_name = PStr ''run_log'',
          script_path = None, run_output = [],
          run_context =
            [(''config_path'', PStr ''automation.config''),
             (''path_mode'', PStr ''cwd''), (''cwd'', PStr ''/srv/job''),
             (''resolved_path'', PStr ''/srv/job''),
             (''host_name'', PStr ''worker1''), (''computername'', PNone),
             (''fqdn'', PStr ''worker1.example.org''),
             (''host_ip'', PStr ''10.0.0.5''), (''platform'', PStr ''Linux''),
             (''python'', PStr ''3.11'')],
          flags = [], t0 = 100, success = True, run_time = None\<rparr>"
proof -
  have rp: "resolve_path example_os_env ''cwd'' None = ''/srv/job''"
    by (simp add: resolve_path_def example_os_env_def)
  have cwd: "env_getcwd example_os_env = ''/srv/job''" "env_time example_os_env = 100"
    by (simp_all add: example_os_env_def)
  show ?thesis
    by (simp add: from_config_def example_load example_env_id example_host example_entry_missing
        resolve_id_def dict_get_def py_or_def opt_str_def example_requested_script rp cwd
        build_context_def dict_update_def Let_def)
qed

theorem script_mode_downgraded_to_cwd_witness:
  "map_sum id (\<lambda>lg. dict_get (run_context lg) ''path_mode'')
     (from_config example_os_env ''automation.config'' (Some 7) (Some []) None
        (Some ''missing.py'') (Some ''Script ''))
     = Inr (PStr ''cwd'') \<and>
   map_sum id (\<lambda>lg. dict_get (run_context lg) ''resolved_path'')
     (from_config example_os_env ''automation.config'' (Some 7) (Some []) None
        (Some ''missing.py'') (Some ''Script ''))
     = Inr (PStr (env_getcwd example_os_env)) \<and>
   lower (strip ''Script '') = ''script'' \<and>
   resolve_entry_script_path example_os_env (Some ''missing.py'') = None"
proof -
  have req: "py_or (py_or (opt_str (Some ''Script ''))
        (dict_get [(''automation_id'', PInt 12), (''schema_name'', PStr ''ops'')] ''path_mode''))
        (PStr ''script'') = PStr ''Script ''"
    by (simp add: py_or_def opt_str_def)
  note inst = script_mode_downgraded_to_cwd[OF example_built_missing example_load req]
  from inst example_requested_script example_entry_missing show ?thesis
    by (simp add: example_built_missing)
qed

lemma example_main_signal: "main_signal example_os_env = Some ''/srv/job/main.py''"
  by (simp add: main_signal_def example_os_env_def)

lemma example_argv_signal:
  "main_signal (example_os_env\<lparr>env_main_file := None\<rparr>) = None \<and>
   argv_signal (example_os_env\<lparr>env_main_file := None\<rparr>) = Some ''/srv/job/main.py''"
  by (simp add: main_signal_def argv_signal_def example_os_env_def)

text \<open>
  C4 as stated fails: on the example host the override \<open>missing.py\<close> names no file,
  the main-module file exists, and the resolver still returns nothing.
\<close>

theorem explicit_miss_ends_resolution:
  "env_isfile example_os_env (env_abspath example_os_env ''missing.py'') = False \<and>
   main_signal example_os_env = Some ''/srv/job/main.py'' \<and>
   resolve_entry_script_path example_os_env None = Some ''/srv/job/main.py'' \<and>
   resolve_entry_script_path example_os_env (Some ''missing.py'') = None"
  by (simp add: example_main_signal example_entry_found example_entry_missing)
    (simp add: example_os_env_def)

theorem resolve_entry_script_path_order_witness:
  "resolve_entry_script_path example_os_env (Some ''main.py'') = Some ''/srv/job/main.py'' \<and>
   resolve_entry_script_path example_os_env (Some ''missing.py'') = None \<and>
   resolve_entry_script_path example_os_env None = Some ''/srv/job/main.py'' \<and>
   resolve_entry_script_path (example_os_env\<lparr>env_main_file := None\<rparr>) (Some [])
     = Some ''/srv/job/main.py'' \<and>
   env_isfile example_os_env ''/srv/job/main.py''"
proof -
  have f: "env_isfile example_os_env (env_abspath example_os_env ''main.py'')"
    "env_abspath example_os_env ''main.py'' = ''/srv/job/main.py''"
    "\<not> env_isfile example_os_env (env_abspath example_os_env ''missing.py'')"
    by (simp_all add: example_os_env_def)
  have n: "''main.py'' \<noteq> []" "''missing.py'' \<noteq> []" by simp_all
  from resolve_entry_script_path_order[of "''main.py''" example_os_env None]
    resolve_entry_script_path_order[of "''missing.py''" example_os_env None]
    resolve_entry_script_path_order[of "''x''" "example_os_env\<lparr>env_main_file := None\<rparr>" "Some []"]
    f n example_main_signal example_argv_signal
  show ?thesis by simp
qed

lemma example_built_empty_schema:
  "from_config example_os_env ''automation.config'' (Some 7) (Some []) None None None =
     Inr \<lparr>automation_id = PInt 7, schema_name = PStr ''ops'', table_name = PStr ''run_log'',
          script_path = Some ''/srv/job/main.py'', run_output = [],
          run_context =
            [(''config_path'', PStr ''automation.config''),
             (''path_mode'', PStr ''script''), (''cwd'', PStr ''/srv/job''),
             (''resolved_path'', PStr ''/srv/job''),
             (''entry_script_path'', PStr ''/srv/job/main.py''),
             (''entry_script_dir'', PStr ''/srv/job''),
             (''host_name'', PStr ''worker1''), (''computername'', PNone),
             (''fqdn'', PStr ''worker1.example.org''),
             (''host_ip'', PStr ''10.0.0.5''), (''platform'', PStr ''Linux''),
             (''python'', PStr ''3.11'')],
          flags = [], t0 = 100, success = True, run_time = None\<rparr>"
proof -
  have rp: "resolve_path example_os_env ''script'' (Some ''/srv/job/main.py'') = ''/srv/job''"
    by (simp add: resolve_path_def strip_script lower_script example_os_env_def)
  have dn: "env_dirname example_os_env ''/srv/job/main.py'' = ''/srv/job''"
    by (simp add: example_os_env_def)
  have cwd: "env_getcwd example_os_env = ''/srv/job''" "env_time example_os_env = 100"
    by (simp_all add: example_os_env_def)
  show ?thesis
    by (simp add: from_config_def example_load example_env_id example_host example_entry_found
        resolve_id_def dict_get_def py_or_def opt_str_def strip_script lower_script rp dn cwd
        build_context_def dict_update_def Let_def)
qed

lemma example_no_config_load:
  "load_automation_config (example_os_env\<lparr>env_exists := (\<lambda>p. False)\<rparr>) ''automation.config''
     = Inr (PDict [])"
  by (simp add: load_automation_config_def)

lemma example_built_from_env:
  "map_sum id automation_id
     (from_config (example_os_env\<lparr>env_exists := (\<lambda>p. False)\<rparr>) ''automation.config''
        None None None None None) = Inr (PInt 42)"
proof -
  let ?env = "example_os_env\<lparr>env_exists := (\<lambda>p. False)\<rparr>"
  have e: "read_env_id ?env = Inr (PInt 42)"
    by (simp add: read_env_id_def example_os_env_def isdigit_def isdigit_char_def
        int_of_digits_def decimal_char_def)
  have h: "get_host_context ?env =
     Inr [(''host_name'', PStr ''worker1''), (''computername'', PNone),
          (''fqdn'', PStr ''worker1.example.org''), (''host_ip'', PStr ''10.0.0.5''),
          (''platform'', PStr ''Linux''), (''python'', PStr ''3.11'')]"
    by (simp add: get_host_context_def example_os_env_def opt_str_def)
  show ?thesis
    by (simp add: from_config_def example_no_config_load e h resolve_id_def dict_get_def
        py_or_def opt_str_def Let_def)
qed

lemma example_no_id:
  "load_automation_config
       (example_os_env\<lparr>env_exists := (\<lambda>p. False), env_getenv := (\<lambda>v. None)\<rparr>)
       ''automation.config'' = Inr (PDict []) \<and>
   read_env_id (example_os_env\<lparr>env_exists := (\<lambda>p. False), env_getenv := (\<lambda>v. None)\<rparr>)
     = Inr PNone"
  by (simp add: load_automation_config_def read_env_id_def)

text \<open>
  C1 as stated fails: the explicit argument \<open>schema_name\<close> is the empty string, the
  config file names the schema \<open>ops\<close>, and the recorder is built with \<open>ops\<close>: the
  config value wins over the explicit argument.
\<close>

theorem empty_explicit_schema_loses:
  "map_sum id schema_name
     (from_config example_os_env ''automation.config'' (Some 7) (Some []) None None None)
     = Inr (PStr ''ops'')"
  by (simp add: example_built_empty_schema)

theorem from_config_precedence_witness:
  "map_sum id automation_id
     (from_config example_os_env ''automation.config'' None None None None None)
     = Inr (PInt 12) \<and>
   map_sum id schema_name
     (from_config example_os_env ''automation.config'' None None None None None)
     = Inr (PStr ''ops'') \<and>
   map_sum id table_name
     (from_config example_os_env ''automation.config'' None None None None None)
     = Inr (PStr ''run_log'') \<and>
   map_sum id (\<lambda>lg. dict_get (run_context lg) ''path_mode'')
     (from_config example_os_env ''automation.config'' None None None None None)
     = Inr (PStr ''script'') \<and>
   map_sum id automation_id
     (from_config example_os_env ''automation.config'' (Some 7) (Some []) None
        (Some ''missing.py'') (Some ''Script ''))
     = Inr (PInt 7) \<and>
   map_sum id (\<lambda>lg. dict_get (run_context lg) ''path_mode'')
     (from_config example_os_env ''automation.config'' (Some 7) (Some []) None
        (Some ''missing.py'') (Some ''Script ''))
     = Inr (PStr ''cwd'') \<and>
   map_sum id automation_id
     (from_config (example_os_env\<lparr>env_exists := (\<lambda>p. False)\<rparr>) ''automation.config''
        None None None None None) = Inr (PInt 42) \<and>
   from_config (example_os_env\<lparr>env_exists := (\<lambda>p. False), env_getenv := (\<lambda>v. None)\<rparr>)
     ''automation.config'' None None None None None = Inl missing_id_error"
proof -
  let ?cfg = "[(''automation_id'', PInt 12), (''schema_name'', PStr ''ops'')]"
  obtain lg where b: "from_config example_os_env ''automation.config'' None None None None None
      = Inr lg"
    using example_built by blast
  have sel: "a_id = None \<and> dict_get ?cfg ''automation_id'' \<noteq> PNone \<longrightarrow>
      automation_id lg = dict_get ?cfg ''automation_id''" for a_id :: "int option"
    using from_config_precedence[of example_os_env "''automation.config''" None None None
        None None lg ?cfg] b example_load
    by (cases a_id) simp_all
  have id12: "automation_id lg = PInt 12"
    using sel[of None] by (simp add: dict_get_def)
  have w1: "map_sum id automation_id
      (from_config example_os_env ''automation.config'' None None None None None)
      = Inr (PInt 12)"
    using b id12 by simp
  have fail: "from_config
      (example_os_env\<lparr>env_exists := (\<lambda>p. False), env_getenv := (\<lambda>v. None)\<rparr>)
      ''automation.config'' None None None None None = Inl missing_id_error"
    using from_config_precedence
      [of "example_os_env\<lparr>env_exists := (\<lambda>p. False), env_getenv := (\<lambda>v. None)\<rparr>"
          "''automation.config''" None None None None None lg "[]"]
      example_no_id
    by (simp add: dict_get_def)
  from w1 fail example_built_from_env show ?thesis
    by (simp add: example_built example_built_missing dict_get_def)
qed

lemma example_durations:
  "duration_ms_of 12 10 = 2000"
  "duration_ms_of 5 10 = - 5000"
  "duration_ms_of (5188146770730811 / 576460752303423488) 0 = 9"
  by code_simp+

lemmas run_evals =
  run_scope_def exit_def insert_row_def record_error_def enter_def failing_work_def
  example_work_def add_output_def example_recorder_def example_run_env_def
  unreachable_run_env_def interrupted_run_env_def example_time_def example_durations
  dict_setdefault_def dict_get_def ValueError_def Let_def

lemma failing_work_raises:
  "failing_work (enter example_recorder 10 example_time)
     = (Some (ValueError ''bad input''),
        add_output (enter example_recorder 10 example_time) ''rows'' (PInt 3))"
  by (simp add: failing_work_def)

lemma example_work_returns:
  "example_work (enter example_recorder 10 example_time)
     = (None, add_output (enter example_recorder 10 example_time) ''rows'' (PInt 3))"
  by (simp add: example_work_def)

lemma example_failed_run:
  "scope_outcome (run_scope example_run_env example_recorder 10 example_time failing_work
      12 example_time) = Raised (ValueError ''bad input'')"
  "map_option row_success (scope_row (run_scope example_run_env example_recorder 10
      example_time failing_work 12 example_time)) = Some False"
  "map_option row_duration_ms (scope_row (run_scope example_run_env example_recorder 10
      example_time failing_work 12 example_time)) = Some 2000"
  "scope_printed (run_scope example_run_env example_recorder 10 example_time failing_work
      12 example_time) = []"
  by (simp_all add: run_evals)

lemma example_unreachable_run:
  "scope_outcome (run_scope unreachable_run_env example_recorder 10 example_time failing_work
      12 example_time) = Raised (ValueError ''bad input'')"
  "scope_printed (run_scope unreachable_run_env example_recorder 10 example_time failing_work
      12 example_time) = [''[AutomationRunLogger] Failed to log run: warehouse unreachable'']"
  "scope_outcome (run_scope unreachable_run_env example_recorder 10 example_time example_work
      12 example_time) = Returned"
  by (simp_all add: run_evals)

lemma example_interrupted_run:
  "scope_outcome (run_scope interrupted_run_env example_recorder 10 example_time failing_work
      12 example_time) = Raised (Exn ''KeyboardInterrupt'' [] False)"
  "scope_printed (run_scope interrupted_run_env example_recorder 10 example_time failing_work
      12 example_time) = []"
  by (simp_all add: run_evals)

lemma example_clock_set_back:
  "map_option row_duration_ms (scope_row (run_scope example_run_env example_recorder 10
      example_time example_work 5 example_time)) = Some (- 5000)"
  by (simp add: run_evals)



text \<open>
  C6 as stated fails: the write is interrupted from the keyboard while the monitored
  work's \<open>ValueError\<close> is in flight; \<open>except Exception\<close> does not catch the
  interrupt, nothing is printed, and the caller sees the interrupt in place of the
  \<open>ValueError\<close>.
\<close>

theorem interrupt_replaces_monitored_failure:
  "fst (failing_work (enter example_recorder 10 example_time))
     = Some (Exn ''ValueError'' ''bad input'' True) \<and>
   scope_outcome (run_scope interrupted_run_env example_recorder 10 example_time failing_work
      12 example_time) = Raised (Exn ''KeyboardInterrupt'' [] False) \<and>
   scope_printed (run_scope interrupted_run_env example_recorder 10 example_time failing_work
      12 example_time) = []"
  by (simp add: example_interrupted_run) (simp add: failing_work_def ValueError_def)

theorem persistence_failure_swallowed_witness:
  "exn_is_Exception (Exn ''ConnectionError'' ''warehouse unreachable'' True) \<and>
   exit_outcome (exit unreachable_run_env
       (add_output (enter example_recorder 10 example_time) ''rows'' (PInt 3))
       12 example_time (Some (ValueError ''bad input''))) = Inr False \<and>
   exit_printed (exit unreachable_run_env
       (add_output (enter example_recorder 10 example_time) ''rows'' (PInt 3))
       12 example_time (Some (ValueError ''bad input'')))
     = [''[AutomationRunLogger] Failed to log run: warehouse unreachable''] \<and>
   scope_outcome (run_scope unreachable_run_env example_recorder 10 example_time failing_work
      12 example_time) = Raised (ValueError ''bad input'')"
proof -
  let ?r1 = "add_output (enter example_recorder 10 example_time) ''rows'' (PInt 3)"
  let ?x = "Exn ''ConnectionError'' ''warehouse unreachable'' True"
  have raised: "fst (insert_row unreachable_run_env
      (case Some (ValueError ''bad input'') of
         None \<Rightarrow> ?r1 | Some e \<Rightarrow> record_error unreachable_run_env ?r1 e)
      (success (case Some (ValueError ''bad input'') of
         None \<Rightarrow> ?r1 | Some e \<Rightarrow> record_error unreachable_run_env ?r1 e))
      (case run_time ?r1 of Some t \<Rightarrow> t | None \<Rightarrow> example_time)
      (duration_ms_of 12 (t0 ?r1))) = Some ?x"
    by (simp add: run_evals)
  have ex: "exn_is_Exception ?x" by simp
  note inst = persistence_failure_swallowed[where work = failing_work and r = example_recorder
      and t_in = 10 and utc_in = example_time and raised = "Some (ValueError ''bad input'')"
      and ?r1.0 = ?r1 and env = unreachable_run_env and t_out = 12 and utc_out = example_time
      and x = ?x, OF failing_work_raises raised ex]
  from inst ex show ?thesis by simp
qed

text \<open>
  C7 as stated fails: the system clock is set back between scope entry (reading 10)
  and finalization (reading 5), and the row handed to the warehouse carries a duration
  of minus 5000 milliseconds.
\<close>

theorem clock_set_back_negative_duration:
  "map_option row_duration_ms (scope_row (run_scope example_run_env example_recorder 10
      example_time example_work 5 example_time)) = Some (- 5000)"
  by (rule example_clock_set_back)

theorem duration_ms_elapsed_witness:
  "t0 (enter example_recorder 10 example_time) = 10 \<and>
   t0 (add_output (enter example_recorder 10 example_time) ''rows'' (PInt 3)) = 10 \<and>
   (10 :: rat) \<le> 12 \<and>
   map_option row_duration_ms (scope_row (run_scope example_run_env example_recorder 10
      example_time failing_work 12 example_time)) = Some 2000 \<and>
   py_int (round_double (round_double (12 - 10) * 1000)) = 2000 \<and>
   py_int (round_double
     (round_double (5188146770730811 / 576460752303423488 - 0) * 1000)) = 9"
proof -
  let ?r1 = "add_output (enter example_recorder 10 example_time) ''rows'' (PInt 3)"
  have k: "t0 ?r1 = 10" by (simp add: add_output_def enter_def)
  obtain row where row: "scope_row (run_scope example_run_env example_recorder 10
      example_time failing_work 12 example_time) = Some row"
    using example_failed_run(3) by (auto simp: map_option_case split: option.splits)
  note inst = duration_ms_elapsed[where work = failing_work and r = example_recorder
      and t_in = 10 and utc_in = example_time and raised = "Some (ValueError ''bad input'')"
      and ?r1.0 = ?r1 and env = example_run_env and t_out = 12 and utc_out = example_time
      and exc = None]
  from inst failing_work_raises k row
  have "0 \<le> row_duration_ms row"
    by simp
  with row k example_failed_run(3) example_durations show ?thesis
    by (simp add: enter_def duration_ms_of_def)
qed

theorem flag_keys_trimmed_invariant_witness:
  "map_sum id flags (from_config example_os_env ''automation.config'' None None None None None)
     = Inr [] \<and>
   flag_keys_trimmed example_recorder \<and>
   add_flag example_recorder (PStr '' late '') [(''by'', PInt 5)]
     = Inr (example_recorder\<lparr>flags := [(''late'', PDict [(''by'', PInt 5)])]\<rparr>) \<and>
   flag_keys_trimmed (example_recorder\<lparr>flags := [(''late'', PDict [(''by'', PInt 5)])]\<rparr>) \<and>
   add_flag example_recorder (PStr ('' '' @ ''late'' @ '' '')) [(''by'', PInt 5)]
     = add_flag example_recorder (PStr ''late'') [(''by'', PInt 5)] \<and>
   flag_keys_trimmed (mark_failure example_recorder) \<and>
   flags (exit_recorder (exit example_run_env example_recorder 1 example_time None)) = []"
proof -
  have s: "strip '' late '' = ''late''" by (simp add: strip_def isspace_def)
  have n: "strip '' late '' \<noteq> []" by (simp add: s)
  have t0: "flag_keys_trimmed example_recorder"
    by (simp add: flag_keys_trimmed_def example_recorder_def)
  have a: "add_flag example_recorder (PStr '' late '') [(''by'', PInt 5)]
      = Inr (example_recorder\<lparr>flags := [(''late'', PDict [(''by'', PInt 5)])]\<rparr>)"
    by (simp add: add_flag_meta n s example_recorder_def merge_meta_def flag_base_def dict_get_def
        keyword_clash_def)
  have ws: "(\<forall>c\<in>set '' ''. isspace c) \<and> (\<forall>c\<in>set '' ''. isspace c)"
    by (simp add: isspace_def)
  have fl: "flags (exit_recorder (exit example_run_env example_recorder 1 example_time None)) = []"
    by (simp add: flags_exit example_recorder_def)
  have b: "map_sum id flags
      (from_config example_os_env ''automation.config'' None None None None None) = Inr []"
    by (simp add: example_built)
  note inst = flag_keys_trimmed_invariant
    [of example_os_env "''automation.config''" None None None None None example_recorder
        "PStr '' late ''" "[(''by'', PInt 5)]" "[]" "''k''" PNone 1 example_time
        example_run_env None "''late''" "'' ''" "'' ''"]
  from inst t0 a b ws fl show ?thesis by simp
qed

end
